theory Spec2Isabelle
  imports Complex_Main "HOL-Library.AList" "HOL-Library.List_Lexorder" "HOL-Library.Log_Nat"
begin

section \<open>Python values used by the HAR recorder\<close>

text \<open>
  A Python \<open>str\<close> is a sequence of Unicode code points, so \<open>len(s)\<close> is the length of the
  list and \<open>s.encode('utf-8')\<close> is computed per code point. A \<open>dict\<close> is an insertion-ordered association list with distinct keys:
  \<open>d.get(k)\<close> is \<open>map_of d k\<close>, \<open>d[k] = v\<close> is \<open>AList.update k v d\<close> (the position of an
  existing key is kept, a new key goes last) and \<open>d.pop(k, None)\<close> removes the key with
  \<open>AList.delete k d\<close>.
\<close>

type_synonym pystr = "nat list"

type_synonym 'v pydict = "(pystr \<times> 'v) list"

definition str :: "string \<Rightarrow> pystr" where
  "str s = map of_char s"

datatype error = UnicodeEncodeError | ValueError | OverflowError | KeyError | OSError

text \<open>
  \<open>s.encode('utf-8')\<close>: one to four bytes per code point; a surrogate code point
  (U+D800 to U+DFFF) cannot be encoded and raises \<open>UnicodeEncodeError\<close>. Only the length of
  the encoding is used by the recorder.
\<close>

definition utf8_width :: "nat \<Rightarrow> nat option" where
  "utf8_width c =
     (if c < 0x80 then Some 1
      else if c < 0x800 then Some 2
      else if 0xD800 \<le> c \<and> c \<le> 0xDFFF then None
      else if c < 0x10000 then Some 3
      else Some 4)"

fun utf8_len :: "pystr \<Rightarrow> error + nat" where
  "utf8_len [] = Inr 0"
| "utf8_len (c # cs) =
     (case utf8_width c of
        None \<Rightarrow> Inl UnicodeEncodeError
      | Some w \<Rightarrow> (case utf8_len cs of Inl e \<Rightarrow> Inl e | Inr n \<Rightarrow> Inr (w + n)))"

subsection \<open>Floating-point numbers\<close>

text \<open>
  A Python \<open>float\<close> is an IEEE 754 binary64 number: a rational \<open>m * 2^q\<close> with a mantissa
  of at most 53 bits. \<open>fl x\<close> is the double nearest to \<open>x\<close>, a tie going to the even
  mantissa; the exponent is not bounded, so overflow to infinity and the subnormal numbers
  are outside the model (timings and timestamps lie far inside the normal range). The
  numeric fields of the events hold the JSON literals; the decoder turns a literal into
  the nearest double, so every read of such a field goes through \<open>fl\<close>, which leaves a value
  that already is a double as it is. An integer literal stays an exact \<open>int\<close> in Python; below
  \<open>2^53\<close> it is a double as well and is computed with alike. Each arithmetic operation
  rounds its exact result once.
\<close>

definition round_half_even :: "rat \<Rightarrow> int" where
  "round_half_even y =
     (let f = \<lfloor>y\<rfloor>; d = y - of_int f
      in if d < 1 / 2 then f else if 1 / 2 < d then f + 1 else if even f then f else f + 1)"

definition ilog2 :: "rat \<Rightarrow> int" where
  "ilog2 x = (if 1 \<le> x then bitlen \<lfloor>x\<rfloor> - 1 else - bitlen (\<lceil>1 / x\<rceil> - 1))"

definition fl :: "rat \<Rightarrow> rat" where
  "fl x =
     (if x = 0 then 0
      else (let a = \<bar>x\<bar>; q = ilog2 a - 52; m = round_half_even (a / 2 powi q)
            in sgn x * of_int m * 2 powi q))"

definition fadd :: "rat \<Rightarrow> rat \<Rightarrow> rat" where
  "fadd x y = fl (x + y)"

definition fsub :: "rat \<Rightarrow> rat \<Rightarrow> rat" where
  "fsub x y = fl (x - y)"

definition fmul :: "rat \<Rightarrow> rat \<Rightarrow> rat" where
  "fmul x y = fl (x * y)"

text \<open>
  \<open>round(x, n)\<close> of a float: the exact value of \<open>x\<close> is rounded to \<open>n\<close> decimals, a tie going
  to the even digit, and the decimal result is converted to the nearest double.
\<close>

definition decimal_round :: "rat \<Rightarrow> nat \<Rightarrow> rat" where
  "decimal_round x n = of_int (round_half_even (x * 10 ^ n)) / 10 ^ n"

definition py_round :: "rat \<Rightarrow> nat \<Rightarrow> rat" where
  "py_round x n = fl (decimal_round x n)"

text \<open>\<open>sum(xs)\<close> starts from 0 and adds the elements from left to right.\<close>

definition fsum :: "rat list \<Rightarrow> rat" where
  "fsum xs = foldl fadd 0 xs"

text \<open>
  The parts of the Python standard library and of the browser the recorder calls, taken
  as parameters: \<open>base64.b64decode\<close> (the length of the decoded bytes, \<open>None\<close> when it
  raises), \<open>datetime.fromtimestamp(t, tz=utc).isoformat()\<close>, \<open>datetime.now(tz=utc).isoformat()\<close>,
  \<open>urlparse\<close> followed by \<open>parse_qs\<close> (the name/value pairs of the query string), the
  answer of the browser to \<open>Network.getResponseBody\<close> for a request id (\<open>None\<close> when the
  command fails), \<open>str\<close> of a number, the installed package version (\<open>None\<close> when the lookup
  raises), \<open>str.lower\<close>, and the outcome of creating the parent directory of a path and
  writing the JSON document there.
\<close>

record pyenv =
  b64decode_len :: "pystr \<Rightarrow> nat option"
  fromtimestamp_iso :: "rat \<Rightarrow> error + pystr"
  now_iso :: pystr
  parse_query :: "pystr \<Rightarrow> error + (pystr \<times> pystr) list"
  get_response_body :: "pystr \<Rightarrow> (pystr \<times> bool) option"
  str_of_number :: "rat \<Rightarrow> pystr"
  pydoll_version :: "pystr option"
  lower :: "pystr \<Rightarrow> pystr"
  write_json :: "pystr \<Rightarrow> error option"

section \<open>HAR types (har\_types.py)\<close>

record HarTimings =
  blocked :: rat
  dns :: rat
  connect :: rat
  ssl :: rat
  send :: rat
  wait :: rat
  receive :: rat

record HarPostData =
  pd_mimeType :: pystr
  pd_text :: pystr

record HarRequest =
  rq_method :: pystr
  rq_url :: pystr
  rq_headers :: "(pystr \<times> pystr) list"
  rq_queryString :: "(pystr \<times> pystr) list"
  rq_headersSize :: int
  rq_bodySize :: int
  rq_postData :: "HarPostData option"

record HarContent =
  ct_size :: int
  ct_mimeType :: pystr
  ct_text :: "pystr option"
  ct_encoding :: "pystr option"

record HarCookie =
  ck_name :: pystr
  ck_value :: pystr
  ck_path :: "pystr option"
  ck_domain :: "pystr option"
  ck_httpOnly :: "bool option"
  ck_secure :: "bool option"

record HarResponse =
  rs_status :: int
  rs_statusText :: pystr
  rs_cookies :: "HarCookie list"
  rs_headers :: "(pystr \<times> pystr) list"
  rs_content :: HarContent
  rs_redirectURL :: pystr
  rs_headersSize :: int
  rs_bodySize :: int

record HarEntry =
  startedDateTime :: pystr
  time :: rat
  request :: HarRequest
  response :: HarResponse
  timings :: HarTimings
  serverIPAddress :: "pystr option"
  connection :: "pystr option"
  resourceType :: "pystr option"

section \<open>The pending entry\<close>

text \<open>
  The scratch dict accumulated per request id (the field \<open>http_method\<close> is
  its key for the request verb). The seven keys written by
  \<open>_on_request_will_be_sent\<close> are always present (\<open>post_data\<close> may hold \<open>None\<close>); every other
  key is optional and read with \<open>pending.get(key, default)\<close>. A key holding \<open>None\<close> and an
  absent key are read alike (\<open>timing\<close>), so both are \<open>None\<close> here.
\<close>

record pending_entry =
  url :: pystr
  http_method :: pystr
  request_headers :: "pystr pydict"
  post_data :: "pystr option"
  wall_time :: rat
  resource_type :: pystr
  timestamp :: rat
  request_headers_extra :: "pystr pydict option"
  status :: "int option"
  status_text :: "pystr option"
  response_headers :: "pystr pydict option"
  response_headers_extra :: "pystr pydict option"
  mime_type :: "pystr option"
  protocol :: "pystr option"
  timing :: "rat pydict option"
  remote_ip :: "pystr option"
  connection_id :: "pystr option"
  encoded_data_length :: "rat option"
  response_timestamp :: "rat option"
  extra_status_code :: "int option"
  transfer_size :: "rat option"
  finished_timestamp :: "rat option"
  body_bytes :: "int option"
  response_body :: "pystr option"
  response_body_base64 :: "bool option"
  error_text :: "pystr option"
  canceled :: "bool option"

section \<open>Building an entry (HarRecorder.\_build\_entry and its helpers)\<close>

definition get_or :: "'v pydict \<Rightarrow> pystr \<Rightarrow> 'v \<Rightarrow> 'v" where
  "get_or d k dflt = (case map_of d k of None \<Rightarrow> dflt | Some v \<Rightarrow> v)"

definition phase :: "rat \<Rightarrow> rat \<Rightarrow> rat" where
  "phase s e = (if 0 \<le> s \<and> 0 \<le> e then py_round (max (fsub e s) 0) 3 else - 1)"

definition build_har_timings :: "rat pydict option \<Rightarrow> rat option \<Rightarrow> HarTimings" where
  "build_har_timings tm receive_ms =
     (let rcv = (case receive_ms of None \<Rightarrow> 0 | Some r \<Rightarrow> py_round r 3)
      in case (case tm of None \<Rightarrow> None | Some t \<Rightarrow> if t = [] then None else Some t) of
           None \<Rightarrow>
             \<lparr>blocked = - 1, dns = - 1, connect = - 1, ssl = - 1,
              send = 0, wait = 0, receive = rcv\<rparr>
         | Some t \<Rightarrow>
             (let dns_s = fl (get_or t (str ''dnsStart'') (- 1));
                  dns_e = fl (get_or t (str ''dnsEnd'') (- 1));
                  con_s = fl (get_or t (str ''connectStart'') (- 1));
                  con_e = fl (get_or t (str ''connectEnd'') (- 1));
                  ssl_s = fl (get_or t (str ''sslStart'') (- 1));
                  ssl_e = fl (get_or t (str ''sslEnd'') (- 1));
                  snd_s = fl (get_or t (str ''sendStart'') 0);
                  snd_e = fl (get_or t (str ''sendEnd'') 0);
                  rh_s = fl (get_or t (str ''receiveHeadersStart'') 0);
                  first = (if 0 \<le> dns_s then dns_s else if 0 \<le> con_s then con_s else snd_s)
              in \<lparr>blocked = py_round (max first 0) 3,
                  dns = phase dns_s dns_e,
                  connect = phase con_s con_e,
                  ssl = phase ssl_s ssl_e,
                  send = py_round (max (fsub snd_e snd_s) 0) 3,
                  wait = py_round (max (fsub rh_s snd_e) 0) 3,
                  receive = rcv\<rparr>))"

text \<open>
  Truthiness of an optional string or dict: \<open>None\<close> and the empty value are false. The
  expression \<open>a or b\<close> is \<open>a\<close> when \<open>a\<close> is true and \<open>b\<close> otherwise.
\<close>

definition truthy :: "'a list option \<Rightarrow> bool" where
  "truthy x = (case x of None \<Rightarrow> False | Some v \<Rightarrow> v \<noteq> [])"

definition headers_or :: "pystr pydict option \<Rightarrow> pystr pydict option \<Rightarrow> pystr pydict" where
  "headers_or extra base =
     (if truthy extra then the extra else (case base of None \<Rightarrow> [] | Some h \<Rightarrow> h))"

definition headers_dict_to_list :: "pystr pydict \<Rightarrow> (pystr \<times> pystr) list" where
  "headers_dict_to_list headers = map (\<lambda>(name, v). (name, v)) headers"

definition wall_time_to_iso :: "pyenv \<Rightarrow> rat \<Rightarrow> error + pystr" where
  "wall_time_to_iso env w = (if w = 0 then Inr (now_iso env) else fromtimestamp_iso env w)"

text \<open>
  \<open>_build_har_request\<close>. The request cookies and the normalised \<open>httpVersion\<close> are
  functions of the headers and of the protocol string alone, raise nothing and are read by
  no other field; they are left out of the record. The keyword arguments are evaluated in
  order, so a failing \<open>urlparse\<close> comes before a failing \<open>encode\<close>.
\<close>

definition build_har_request ::
  "pyenv \<Rightarrow> pystr \<Rightarrow> pending_entry \<Rightarrow> pystr pydict \<Rightarrow> pystr option \<Rightarrow> error + HarRequest" where
  "build_har_request env u p headers post_data_text =
     (case parse_query env u of
        Inl e \<Rightarrow> Inl e
      | Inr qs \<Rightarrow>
          (case (if truthy post_data_text then utf8_len (the post_data_text) else Inr 0) of
             Inl e \<Rightarrow> Inl e
           | Inr n \<Rightarrow>
               Inr \<lparr>rq_method = http_method p,
                    rq_url = u,
                    rq_headers = headers_dict_to_list headers,
                    rq_queryString = qs,
                    rq_headersSize = - 1,
                    rq_bodySize = int n,
                    rq_postData =
                      (if truthy post_data_text
                       then Some \<lparr>pd_mimeType =
                                    get_or headers (str ''Content-Type'')
                                      (get_or headers (str ''content-type'') []),
                                  pd_text = the post_data_text\<rparr>
                       else None)\<rparr>))"

definition HTTP_NOT_MODIFIED :: int where
  "HTTP_NOT_MODIFIED = 304"

definition effective_status :: "pending_entry \<Rightarrow> int" where
  "effective_status p =
     (case extra_status_code p of
        Some c \<Rightarrow> c
      | None \<Rightarrow> (case status p of Some c \<Rightarrow> c | None \<Rightarrow> 0))"

text \<open>
  The content size of \<open>_build_har_response\<close>: the decoded length of a base64 body (the
  length of the text when decoding raises), the UTF-8 length of a text body, 0 without a body.
  The content size is computed before the cookies are parsed, so its exception comes first.
  The normalised \<open>httpVersion\<close> of the response raises nothing and is left out, as for the
  request.
\<close>

definition content_size_of :: "pyenv \<Rightarrow> pending_entry \<Rightarrow> error + nat" where
  "content_size_of env p =
     (let body = (case response_body p of None \<Rightarrow> [] | Some b \<Rightarrow> b);
          is_base64 = (case response_body_base64 p of None \<Rightarrow> False | Some b \<Rightarrow> b)
      in if body \<noteq> [] \<and> is_base64
         then (case b64decode_len env body of Some n \<Rightarrow> Inr n | None \<Rightarrow> Inr (length body))
         else if body \<noteq> [] then utf8_len body
         else Inr 0)"

subsection \<open>Response cookies (\_parse\_response\_cookies)\<close>

text \<open>
  The string methods used by the parser. \<open>s.strip()\<close> removes the white space of Python
  (the code points for which \<open>str.isspace\<close> holds) at both ends; \<open>s.split(c)\<close> cuts at every
  occurrence of the character \<open>c\<close>; \<open>s.split(c, 1)\<close> cuts at the first one, giving one part
  when \<open>c\<close> does not occur and two when it does.
\<close>

definition code_point :: "char \<Rightarrow> nat" where
  "code_point c = of_char c"

definition is_space :: "nat \<Rightarrow> bool" where
  "is_space c =
     ((9 \<le> c \<and> c \<le> 13) \<or> (28 \<le> c \<and> c \<le> 32) \<or> c = 133 \<or> c = 160 \<or> c = 5760 \<or>
      (8192 \<le> c \<and> c \<le> 8202) \<or> c = 8232 \<or> c = 8233 \<or> c = 8239 \<or> c = 8287 \<or> c = 12288)"

definition strip :: "pystr \<Rightarrow> pystr" where
  "strip s = rev (dropWhile is_space (rev (dropWhile is_space s)))"

fun split_char :: "nat \<Rightarrow> pystr \<Rightarrow> pystr list" where
  "split_char c [] = [[]]"
| "split_char c (x # xs) =
     (if x = c then [] # split_char c xs
      else (case split_char c xs of [] \<Rightarrow> [[x]] | y # ys \<Rightarrow> (x # y) # ys))"

definition before_first :: "nat \<Rightarrow> pystr \<Rightarrow> pystr" where
  "before_first c s = takeWhile (\<lambda>x. x \<noteq> c) s"

definition after_first :: "nat \<Rightarrow> pystr \<Rightarrow> pystr" where
  "after_first c s = tl (dropWhile (\<lambda>x. x \<noteq> c) s)"

definition startswith :: "pystr \<Rightarrow> pystr \<Rightarrow> bool" where
  "startswith s pre = (take (length pre) s = pre)"

definition apply_cookie_attr :: "pyenv \<Rightarrow> HarCookie \<Rightarrow> pystr \<Rightarrow> HarCookie" where
  "apply_cookie_attr env cookie raw_attr =
     (let attr_lower = lower env (strip raw_attr)
      in if attr_lower = str ''httponly'' then cookie\<lparr>ck_httpOnly := Some True\<rparr>
         else if attr_lower = str ''secure'' then cookie\<lparr>ck_secure := Some True\<rparr>
         else if startswith attr_lower (str ''path='')
           then cookie\<lparr>ck_path := Some (after_first (code_point CHR ''='') attr_lower)\<rparr>
         else if startswith attr_lower (str ''domain='')
           then cookie\<lparr>ck_domain := Some (after_first (code_point CHR ''='') attr_lower)\<rparr>
         else cookie)"

text \<open>
  The loop over the lines of the \<open>Set-Cookie\<close> value. A line that holds an \<open>=\<close> only after
  its first \<open>;\<close> makes the unpacking \<open>name, value = name_value.split('=', 1)\<close> raise
  \<open>ValueError\<close>, and the cookies collected so far are lost with it.
\<close>

fun parse_set_cookie_lines :: "pyenv \<Rightarrow> pystr list \<Rightarrow> error + HarCookie list" where
  "parse_set_cookie_lines env [] = Inr []"
| "parse_set_cookie_lines env (raw_line # rest) =
     (let stripped_line = strip raw_line
      in if code_point CHR ''='' \<notin> set stripped_line then parse_set_cookie_lines env rest
         else
           (let name_value = before_first (code_point CHR '';'') stripped_line
            in if code_point CHR ''='' \<notin> set name_value then Inl ValueError
               else
                 (let name = strip (before_first (code_point CHR ''='') name_value);
                      v = after_first (code_point CHR ''='') name_value
                  in if name = [] then parse_set_cookie_lines env rest
                     else
                       (let cookie =
                              foldl (apply_cookie_attr env)
                                \<lparr>ck_name = name, ck_value = strip v, ck_path = None,
                                 ck_domain = None, ck_httpOnly = None, ck_secure = None\<rparr>
                                (tl (split_char (code_point CHR '';'') stripped_line))
                        in case parse_set_cookie_lines env rest of
                             Inl e \<Rightarrow> Inl e
                           | Inr cookies \<Rightarrow> Inr (cookie # cookies)))))"

definition parse_response_cookies :: "pyenv \<Rightarrow> pystr pydict \<Rightarrow> error + HarCookie list" where
  "parse_response_cookies env headers =
     (let set_cookie = get_or headers (str ''Set-Cookie'') (get_or headers (str ''set-cookie'') [])
      in if set_cookie = [] then Inr []
         else parse_set_cookie_lines env (split_char 10 set_cookie))"

subsection \<open>The response and the entry\<close>

definition build_har_response :: "pyenv \<Rightarrow> pending_entry \<Rightarrow> pystr pydict \<Rightarrow> error + HarResponse" where
  "build_har_response env p headers =
     (let body = (case response_body p of None \<Rightarrow> [] | Some b \<Rightarrow> b);
          is_base64 = (case response_body_base64 p of None \<Rightarrow> False | Some b \<Rightarrow> b);
          st = effective_status p
      in case content_size_of env p of
           Inl e \<Rightarrow> Inl e
         | Inr n \<Rightarrow>
           (case parse_response_cookies env headers of
              Inl e \<Rightarrow> Inl e
            | Inr resp_cookies \<Rightarrow>
             (let content_size = int n;
                  har_content =
                    \<lparr>ct_size = content_size,
                     ct_mimeType = (case mime_type p of None \<Rightarrow> [] | Some m \<Rightarrow> m),
                     ct_text = (if body \<noteq> [] then Some body else None),
                     ct_encoding = (if body \<noteq> [] \<and> is_base64 then Some (str ''base64'') else None)\<rparr>;
                  bb = (case body_bytes p of None \<Rightarrow> - 1 | Some b \<Rightarrow> b);
                  body_size =
                    (if st = HTTP_NOT_MODIFIED then 0
                     else if 0 < bb then bb
                     else if 0 < content_size then content_size
                     else - 1)
              in Inr \<lparr>rs_status = st,
                      rs_statusText = (case status_text p of None \<Rightarrow> [] | Some t \<Rightarrow> t),
                      rs_cookies = resp_cookies,
                      rs_headers = headers_dict_to_list headers,
                      rs_content = har_content,
                      rs_redirectURL =
                        get_or headers (str ''Location'') (get_or headers (str ''location'') []),
                      rs_headersSize = - 1,
                      rs_bodySize = body_size\<rparr>)))"

text \<open>
  The receive time of \<open>_build_entry\<close>: the gap between the two monotonic timestamps in
  milliseconds, when both are non-zero and the finish is later than the response.
\<close>

definition receive_ms_of :: "pending_entry \<Rightarrow> rat option" where
  "receive_ms_of p =
     (let response_ts = (case response_timestamp p of None \<Rightarrow> 0 | Some t \<Rightarrow> fl t);
          finished_ts = (case finished_timestamp p of None \<Rightarrow> 0 | Some t \<Rightarrow> fl t)
      in if response_ts \<noteq> 0 \<and> finished_ts \<noteq> 0 \<and> response_ts < finished_ts
         then Some (fmul (fsub finished_ts response_ts) 1000)
         else None)"

definition total_time_of :: "HarTimings \<Rightarrow> rat" where
  "total_time_of t =
     fsum (filter (\<lambda>v. 0 < v) [blocked t, dns t, connect t, send t, wait t, receive t])"

definition nonempty_opt :: "pystr option \<Rightarrow> pystr option" where
  "nonempty_opt x = (if truthy x then x else None)"

definition build_entry :: "pyenv \<Rightarrow> pending_entry \<Rightarrow> error + HarEntry" where
  "build_entry env p =
     (let req_hdrs = headers_or (request_headers_extra p) (Some (request_headers p));
          resp_hdrs = headers_or (response_headers_extra p) (response_headers p)
      in case build_har_request env (url p) p req_hdrs (post_data p) of
           Inl e \<Rightarrow> Inl e
         | Inr har_request \<Rightarrow>
             (case build_har_response env p resp_hdrs of
                Inl e \<Rightarrow> Inl e
              | Inr har_response \<Rightarrow>
                  (let har_timings = build_har_timings (timing p) (receive_ms_of p);
                       total_time = total_time_of har_timings
                   in case wall_time_to_iso env (wall_time p) of
                        Inl e \<Rightarrow> Inl e
                      | Inr started \<Rightarrow>
                          Inr \<lparr>startedDateTime = started,
                               time = py_round total_time 2,
                               request = har_request,
                               response = har_response,
                               timings = har_timings,
                               serverIPAddress = nonempty_opt (remote_ip p),
                               connection = nonempty_opt (connection_id p),
                               resourceType = nonempty_opt (Some (resource_type p))\<rparr>)))"

section \<open>CDP network events\<close>

text \<open>
  The \<open>params\<close> object of each event. A key the handlers read with \<open>params[key]\<close> is a
  field; a key they read with \<open>.get\<close> is optional. The keys \<open>status\<close>, \<open>statusText\<close> and
  \<open>mimeType\<close> of a response and \<open>errorText\<close> of a failure are read both ways, so they are
  optional and the subscript raises \<open>KeyError\<close> when they are absent. \<open>cr_other_keys\<close> lists
  the keys of a response object the recorder never reads; they only decide whether the
  object is an empty dict.
\<close>

record cdp_request =
  rd_url :: "pystr option"
  rd_method :: "pystr option"
  rd_headers :: "pystr pydict option"
  rd_postData :: "pystr option"

record cdp_response =
  cr_status :: "int option"
  cr_statusText :: "pystr option"
  cr_headers :: "pystr pydict option"
  cr_mimeType :: "pystr option"
  cr_protocol :: "pystr option"
  cr_timing :: "rat pydict option"
  cr_remoteIPAddress :: "pystr option"
  cr_connectionId :: "rat option"
  cr_encodedDataLength :: "rat option"
  cr_other_keys :: "pystr list"

definition response_is_empty :: "cdp_response \<Rightarrow> bool" where
  "response_is_empty r =
     (cr_status r = None \<and> cr_statusText r = None \<and> cr_headers r = None \<and>
      cr_mimeType r = None \<and> cr_protocol r = None \<and> cr_timing r = None \<and>
      cr_remoteIPAddress r = None \<and> cr_connectionId r = None \<and>
      cr_encodedDataLength r = None \<and> cr_other_keys r = [])"

record RequestWillBeSentEvent =
  ws_requestId :: pystr
  ws_request :: cdp_request
  ws_type :: "pystr option"
  ws_redirectResponse :: "cdp_response option"
  ws_wallTime :: rat
  ws_timestamp :: rat

record RequestWillBeSentExtraInfoEvent =
  wx_requestId :: pystr
  wx_headers :: "pystr pydict option"

record ResponseReceivedEvent =
  rr_requestId :: pystr
  rr_response :: cdp_response
  rr_timestamp :: rat

record ResponseReceivedExtraInfoEvent =
  rx_requestId :: pystr
  rx_headers :: "pystr pydict option"
  rx_statusCode :: "int option"

record DataReceivedEvent =
  dr_requestId :: pystr
  dr_encodedDataLength :: int

record LoadingFinishedEvent =
  lf_requestId :: pystr
  lf_encodedDataLength :: rat
  lf_timestamp :: rat

record LoadingFailedEvent =
  lx_requestId :: pystr
  lx_errorText :: "pystr option"
  lx_canceled :: "bool option"

section \<open>The recorder (class HarRecorder)\<close>

text \<open>
  A body-fetch task runs \<open>_finalize_entry(request_id)\<close>. It is \<open>Created\<close> by
  \<open>_on_loading_finished\<close>; its first step pops the pending entry and, when there is one,
  suspends on the body fetch holding that entry (\<open>Fetching\<close>); its second step builds and
  appends the entry. A finished task is removed from \<open>_body_tasks\<close> by its done callback.
\<close>

datatype task = Created pystr | Fetching pystr pending_entry

record HarRecorder =
  resource_types :: "pystr list option"
  callback_ids :: "nat list"
  pending :: "pending_entry pydict"
  entries :: "HarEntry list"
  network_was_enabled :: bool
  body_tasks :: "task list"
  data_received_sizes :: "int pydict"

definition HarRecorder_init :: "pystr list option \<Rightarrow> HarRecorder" where
  "HarRecorder_init rts =
     \<lparr>resource_types = (if truthy rts then rts else None),
      callback_ids = [],
      pending = [],
      entries = [],
      network_was_enabled = False,
      body_tasks = [],
      data_received_sizes = []\<rparr>"

text \<open>
  A handler returns the exception it raised, if any, with the state it left behind: the
  mutations made before a raise stay.
\<close>

definition finalize_redirect_entry ::
  "pyenv \<Rightarrow> pystr \<Rightarrow> cdp_response \<Rightarrow> HarRecorder \<Rightarrow> error option \<times> HarRecorder" where
  "finalize_redirect_entry env request_id redirect_response s =
     (case map_of (pending s) request_id of
        None \<Rightarrow> (None, s)
      | Some p \<Rightarrow>
          (let s1 = s\<lparr>pending := AList.delete request_id (pending s),
                      data_received_sizes := AList.delete request_id (data_received_sizes s)\<rparr>;
               p1 = p\<lparr>body_bytes := Some (get_or (data_received_sizes s) request_id (- 1)),
                      status := Some (case cr_status redirect_response of None \<Rightarrow> 302 | Some c \<Rightarrow> c),
                      status_text :=
                        Some (case cr_statusText redirect_response of None \<Rightarrow> [] | Some t \<Rightarrow> t),
                      response_headers :=
                        Some (case cr_headers redirect_response of None \<Rightarrow> [] | Some h \<Rightarrow> h),
                      mime_type :=
                        Some (case cr_mimeType redirect_response of None \<Rightarrow> [] | Some m \<Rightarrow> m),
                      protocol :=
                        Some (case cr_protocol redirect_response of None \<Rightarrow> [] | Some m \<Rightarrow> m),
                      timing := cr_timing redirect_response\<rparr>
           in case build_entry env p1 of
                Inl e \<Rightarrow> (Some e, s1)
              | Inr entry \<Rightarrow> (None, s1\<lparr>entries := entries s1 @ [entry]\<rparr>)))"

definition new_pending :: "RequestWillBeSentEvent \<Rightarrow> pending_entry" where
  "new_pending ev =
     \<lparr>url = (case rd_url (ws_request ev) of None \<Rightarrow> [] | Some u \<Rightarrow> u),
      http_method = (case rd_method (ws_request ev) of None \<Rightarrow> str ''GET'' | Some m \<Rightarrow> m),
      request_headers = (case rd_headers (ws_request ev) of None \<Rightarrow> [] | Some h \<Rightarrow> h),
      post_data = rd_postData (ws_request ev),
      wall_time = ws_wallTime ev,
      resource_type = (case ws_type ev of None \<Rightarrow> [] | Some t \<Rightarrow> t),
      timestamp = ws_timestamp ev,
      request_headers_extra = None, status = None, status_text = None,
      response_headers = None, response_headers_extra = None, mime_type = None,
      protocol = None, timing = None, remote_ip = None, connection_id = None,
      encoded_data_length = None, response_timestamp = None, extra_status_code = None,
      transfer_size = None, finished_timestamp = None, body_bytes = None,
      response_body = None, response_body_base64 = None, error_text = None,
      canceled = None\<rparr>"

definition filtered_out :: "HarRecorder \<Rightarrow> pystr \<Rightarrow> bool" where
  "filtered_out s rt = (truthy (resource_types s) \<and> rt \<notin> set (the (resource_types s)))"

definition is_redirect :: "RequestWillBeSentEvent \<Rightarrow> bool" where
  "is_redirect ev =
     (case ws_redirectResponse ev of None \<Rightarrow> False | Some r \<Rightarrow> \<not> response_is_empty r)"

definition on_request_will_be_sent ::
  "pyenv \<Rightarrow> RequestWillBeSentEvent \<Rightarrow> HarRecorder \<Rightarrow> error option \<times> HarRecorder" where
  "on_request_will_be_sent env ev s =
     (let request_id = ws_requestId ev;
          rt = (case ws_type ev of None \<Rightarrow> [] | Some t \<Rightarrow> t)
      in if filtered_out s rt then (None, s)
         else
           (case (if is_redirect ev \<and> request_id \<in> fst ` set (pending s)
                  then finalize_redirect_entry env request_id (the (ws_redirectResponse ev)) s
                  else (None, s)) of
              (Some e, s1) \<Rightarrow> (Some e, s1)
            | (None, s1) \<Rightarrow>
                (None, s1\<lparr>pending := AList.update request_id (new_pending ev) (pending s1)\<rparr>)))"

definition on_request_extra_info ::
  "RequestWillBeSentExtraInfoEvent \<Rightarrow> HarRecorder \<Rightarrow> error option \<times> HarRecorder" where
  "on_request_extra_info ev s =
     (let request_id = wx_requestId ev
      in case map_of (pending s) request_id of
           None \<Rightarrow> (None, s)
         | Some p \<Rightarrow>
             (if truthy (wx_headers ev)
              then (None, s\<lparr>pending :=
                      AList.update request_id (p\<lparr>request_headers_extra := wx_headers ev\<rparr>)
                        (pending s)\<rparr>)
              else (None, s)))"

text \<open>
  \<open>_on_response_received\<close> writes the keys of the pending entry one after the other; a
  missing \<open>status\<close>, \<open>statusText\<close> or \<open>mimeType\<close> raises at its own assignment and leaves the
  keys written before it.
\<close>

definition on_response_received ::
  "pyenv \<Rightarrow> ResponseReceivedEvent \<Rightarrow> HarRecorder \<Rightarrow> error option \<times> HarRecorder" where
  "on_response_received env ev s =
     (let request_id = rr_requestId ev; r = rr_response ev
      in case map_of (pending s) request_id of
           None \<Rightarrow> (None, s)
         | Some p \<Rightarrow>
             (case cr_status r of
                None \<Rightarrow> (Some KeyError, s)
              | Some st \<Rightarrow>
                  (let p1 = p\<lparr>status := Some st\<rparr>
                   in case cr_statusText r of
                        None \<Rightarrow>
                          (Some KeyError, s\<lparr>pending := AList.update request_id p1 (pending s)\<rparr>)
                      | Some tx \<Rightarrow>
                          (let p2 = p1\<lparr>status_text := Some tx,
                                         response_headers :=
                                           Some (case cr_headers r of None \<Rightarrow> [] | Some h \<Rightarrow> h)\<rparr>
                           in case cr_mimeType r of
                                None \<Rightarrow>
                                  (Some KeyError,
                                   s\<lparr>pending := AList.update request_id p2 (pending s)\<rparr>)
                              | Some mt \<Rightarrow>
                                  (let p3 = p2\<lparr>mime_type := Some mt,
                                                 protocol :=
                                                   Some (case cr_protocol r of None \<Rightarrow> [] | Some x \<Rightarrow> x),
                                                 timing := cr_timing r,
                                                 remote_ip :=
                                                   Some (case cr_remoteIPAddress r of
                                                           None \<Rightarrow> [] | Some x \<Rightarrow> x),
                                                 connection_id :=
                                                   Some (case cr_connectionId r of
                                                           None \<Rightarrow> []
                                                         | Some c \<Rightarrow> str_of_number env c),
                                                 encoded_data_length :=
                                                   Some (case cr_encodedDataLength r of
                                                           None \<Rightarrow> 0 | Some x \<Rightarrow> x),
                                                 response_timestamp := Some (rr_timestamp ev)\<rparr>
                                   in (None,
                                       s\<lparr>pending := AList.update request_id p3 (pending s)\<rparr>))))))"

definition on_response_extra_info ::
  "ResponseReceivedExtraInfoEvent \<Rightarrow> HarRecorder \<Rightarrow> error option \<times> HarRecorder" where
  "on_response_extra_info ev s =
     (let request_id = rx_requestId ev
      in case map_of (pending s) request_id of
           None \<Rightarrow> (None, s)
         | Some p \<Rightarrow>
             (let p1 = (if truthy (rx_headers ev)
                        then p\<lparr>response_headers_extra := rx_headers ev\<rparr> else p);
                  p2 = (case rx_statusCode ev of
                          None \<Rightarrow> p1
                        | Some c \<Rightarrow> p1\<lparr>extra_status_code := Some c\<rparr>)
              in (None, s\<lparr>pending := AList.update request_id p2 (pending s)\<rparr>)))"

definition on_data_received ::
  "DataReceivedEvent \<Rightarrow> HarRecorder \<Rightarrow> error option \<times> HarRecorder" where
  "on_data_received ev s =
     (let request_id = dr_requestId ev; chunk_size = dr_encodedDataLength ev
      in (None,
          s\<lparr>data_received_sizes :=
               AList.update request_id (get_or (data_received_sizes s) request_id 0 + chunk_size)
                 (data_received_sizes s)\<rparr>))"

definition on_loading_finished ::
  "LoadingFinishedEvent \<Rightarrow> HarRecorder \<Rightarrow> error option \<times> HarRecorder" where
  "on_loading_finished ev s =
     (let request_id = lf_requestId ev
      in case map_of (pending s) request_id of
           None \<Rightarrow> (None, s)
         | Some p \<Rightarrow>
             (let p1 = p\<lparr>transfer_size := Some (lf_encodedDataLength ev),
                         finished_timestamp := Some (lf_timestamp ev),
                         body_bytes := Some (get_or (data_received_sizes s) request_id (- 1))\<rparr>
              in (None,
                  s\<lparr>pending := AList.update request_id p1 (pending s),
                    data_received_sizes := AList.delete request_id (data_received_sizes s),
                    body_tasks := body_tasks s @ [Created request_id]\<rparr>)))"

definition on_loading_failed ::
  "pyenv \<Rightarrow> LoadingFailedEvent \<Rightarrow> HarRecorder \<Rightarrow> error option \<times> HarRecorder" where
  "on_loading_failed env ev s =
     (let request_id = lx_requestId ev
      in case map_of (pending s) request_id of
           None \<Rightarrow> (None, s)
         | Some p \<Rightarrow>
             (let s1 = s\<lparr>pending := AList.delete request_id (pending s),
                         data_received_sizes := AList.delete request_id (data_received_sizes s)\<rparr>;
                  p1 = p\<lparr>status := (case status p of None \<Rightarrow> Some 0 | Some c \<Rightarrow> Some c),
                         status_text :=
                           (case status_text p of
                              None \<Rightarrow>
                                Some (case lx_errorText ev of None \<Rightarrow> str ''Failed'' | Some t \<Rightarrow> t)
                            | Some t \<Rightarrow> Some t)\<rparr>
              in case lx_errorText ev of
                   None \<Rightarrow> (Some KeyError, s1)
                 | Some et \<Rightarrow>
                     (let p2 = p1\<lparr>error_text := Some et,
                                    canceled :=
                                      Some (case lx_canceled ev of None \<Rightarrow> False | Some c \<Rightarrow> c)\<rparr>
                      in case build_entry env p2 of
                           Inl e \<Rightarrow> (Some e, s1)
                         | Inr entry \<Rightarrow> (None, s1\<lparr>entries := entries s1 @ [entry]\<rparr>))))"

subsection \<open>Body-fetch tasks\<close>

definition fetch_response_body :: "pyenv \<Rightarrow> pystr \<Rightarrow> pystr \<times> bool" where
  "fetch_response_body env request_id =
     (case get_response_body env request_id of None \<Rightarrow> ([], False) | Some r \<Rightarrow> r)"

text \<open>
  \<open>_finalize_entry\<close> up to its \<open>await\<close>: the pending entry is popped; and after it: the body
  is stored, the entry built and appended. An exception of the second half stays inside
  the task.
\<close>

definition finalize_entry_begin :: "pystr \<Rightarrow> HarRecorder \<Rightarrow> pending_entry option \<times> HarRecorder" where
  "finalize_entry_begin request_id s =
     (map_of (pending s) request_id, s\<lparr>pending := AList.delete request_id (pending s)\<rparr>)"

definition finalize_entry_finish ::
  "pyenv \<Rightarrow> pystr \<Rightarrow> pending_entry \<Rightarrow> HarRecorder \<Rightarrow> error option \<times> HarRecorder" where
  "finalize_entry_finish env request_id p s =
     (let (body, base64_encoded) = fetch_response_body env request_id;
          p1 = p\<lparr>response_body := Some body, response_body_base64 := Some base64_encoded\<rparr>
      in case build_entry env p1 of
           Inl e \<Rightarrow> (Some e, s)
         | Inr entry \<Rightarrow> (None, s\<lparr>entries := entries s @ [entry]\<rparr>))"

text \<open>
  One step of the event loop on the task at position \<open>i\<close> of \<open>_body_tasks\<close>.
\<close>

definition task_step :: "pyenv \<Rightarrow> nat \<Rightarrow> HarRecorder \<Rightarrow> HarRecorder" where
  "task_step env i s =
     (if length (body_tasks s) \<le> i then s
      else
        (case body_tasks s ! i of
           Created rid \<Rightarrow>
             (case finalize_entry_begin rid s of
                (None, s1) \<Rightarrow> s1\<lparr>body_tasks := take i (body_tasks s1) @ drop (Suc i) (body_tasks s1)\<rparr>
              | (Some p, s1) \<Rightarrow> s1\<lparr>body_tasks := (body_tasks s1)[i := Fetching rid p]\<rparr>)
         | Fetching rid p \<Rightarrow>
             (let s1 = snd (finalize_entry_finish env rid p s)
              in s1\<lparr>body_tasks := take i (body_tasks s1) @ drop (Suc i) (body_tasks s1)\<rparr>)))"

text \<open>
  \<open>asyncio.gather(*self._body_tasks, return_exceptions=True)\<close>: the tasks not yet started
  take their first step in creation order, then every fetch completes, in list order,
  and the exceptions are collected, not raised.
\<close>

fun begin_all :: "task list \<Rightarrow> HarRecorder \<Rightarrow> task list \<times> HarRecorder" where
  "begin_all [] s = ([], s)"
| "begin_all (Created rid # ts) s =
     (case finalize_entry_begin rid s of
        (None, s1) \<Rightarrow> begin_all ts s1
      | (Some p, s1) \<Rightarrow> (case begin_all ts s1 of (ts', s2) \<Rightarrow> (Fetching rid p # ts', s2)))"
| "begin_all (Fetching rid p # ts) s =
     (case begin_all ts s of (ts', s1) \<Rightarrow> (Fetching rid p # ts', s1))"

fun finish_all :: "pyenv \<Rightarrow> task list \<Rightarrow> HarRecorder \<Rightarrow> HarRecorder" where
  "finish_all env [] s = s"
| "finish_all env (Created rid # ts) s = finish_all env ts s"
| "finish_all env (Fetching rid p # ts) s =
     finish_all env ts (snd (finalize_entry_finish env rid p s))"

definition gather :: "pyenv \<Rightarrow> HarRecorder \<Rightarrow> HarRecorder" where
  "gather env s = (case begin_all (body_tasks s) s of (ts, s1) \<Rightarrow> finish_all env ts s1)"

subsection \<open>Stopping\<close>

definition flush_defaults :: "pending_entry \<Rightarrow> pending_entry" where
  "flush_defaults p =
     p\<lparr>status := (case status p of None \<Rightarrow> Some 0 | Some c \<Rightarrow> Some c),
       status_text := (case status_text p of None \<Rightarrow> Some (str ''(pending)'') | Some t \<Rightarrow> Some t)\<rparr>"

text \<open>
  The loop of \<open>_flush_pending\<close> over the snapshot \<open>list(self._pending.keys())\<close>;
  \<open>self._pending.pop(request_id)\<close> has no default and raises \<open>KeyError\<close> on a missing key.
\<close>

fun flush_loop :: "pyenv \<Rightarrow> pystr list \<Rightarrow> HarRecorder \<Rightarrow> error option \<times> HarRecorder" where
  "flush_loop env [] s = (None, s)"
| "flush_loop env (request_id # rids) s =
     (case map_of (pending s) request_id of
        None \<Rightarrow> (Some KeyError, s)
      | Some p \<Rightarrow>
          (let s1 = s\<lparr>pending := AList.delete request_id (pending s)\<rparr>
           in case build_entry env (flush_defaults p) of
                Inl e \<Rightarrow> (Some e, s1)
              | Inr entry \<Rightarrow> flush_loop env rids (s1\<lparr>entries := entries s1 @ [entry]\<rparr>)))"

definition flush_pending :: "pyenv \<Rightarrow> HarRecorder \<Rightarrow> error option \<times> HarRecorder" where
  "flush_pending env s = flush_loop env (map fst (pending s)) s"

text \<open>
  \<open>stop\<close>: the callbacks are removed from the tab, the body tasks are awaited and the list
  cleared, the pending entries are flushed, and the network events are disabled if the
  recorder had enabled them. The tab is outside the recorder; only the fields of the
  recorder are kept.
\<close>

definition stop :: "pyenv \<Rightarrow> HarRecorder \<Rightarrow> error option \<times> HarRecorder" where
  "stop env s =
     (let s1 = s\<lparr>callback_ids := []\<rparr>;
          s2 = (if body_tasks s1 \<noteq> [] then (gather env s1)\<lparr>body_tasks := []\<rparr> else s1)
      in case flush_pending env s2 of
           (Some e, s3) \<Rightarrow> (Some e, s3)
         | (None, s3) \<Rightarrow> (None, s3\<lparr>network_was_enabled := False\<rparr>))"

section \<open>The capture facade (class HarCapture)\<close>

text \<open>
  \<open>sorted(xs, key=f)\<close> is a stable sort; \<open>sort_key\<close> is the stable insertion sort of the
  library. Python compares strings by code point, lexicographically, as the order on
  lists of naturals does.
\<close>

definition capture_entries :: "HarRecorder \<Rightarrow> HarEntry list" where
  "capture_entries s = sort_key startedDateTime (entries s)"

record HarLog =
  log_version :: pystr
  log_creator_name :: pystr
  log_creator_version :: pystr
  log_pages :: "unit list"
  log_entries :: "HarEntry list"

definition PYDOLL_CREATOR_NAME :: pystr where
  "PYDOLL_CREATOR_NAME = str ''pydoll''"

definition get_pydoll_version :: "pyenv \<Rightarrow> pystr" where
  "get_pydoll_version env = (case pydoll_version env of None \<Rightarrow> str ''unknown'' | Some v \<Rightarrow> v)"

definition to_dict :: "pyenv \<Rightarrow> HarRecorder \<Rightarrow> HarLog" where
  "to_dict env s =
     \<lparr>log_version = str ''1.2'',
      log_creator_name = PYDOLL_CREATOR_NAME,
      log_creator_version = get_pydoll_version env,
      log_pages = [],
      log_entries = sort_key startedDateTime (entries s)\<rparr>"

text \<open>
  \<open>save\<close> builds the document, creates the parent directory and writes the file; a failure
  of the file system is raised. The value is the document written.
\<close>

definition save :: "pyenv \<Rightarrow> HarRecorder \<Rightarrow> pystr \<Rightarrow> error + HarLog" where
  "save env s path =
     (let har_dict = to_dict env s
      in case write_json env path of Some e \<Rightarrow> Inl e | None \<Rightarrow> Inr har_dict)"

section \<open>Command routing (FindElementsMixin.\_resolve\_routing, \_execute\_command)\<close>

text \<open>
  A connection handler is an object; only its identity matters here, so it is a number.
  An attribute read with \<open>getattr(self, name, None)\<close> is optional.
\<close>

type_synonym handler = nat

record IFrameContext =
  frame_id :: pystr
  session_handler :: "handler option"
  session_id :: "pystr option"

record routing_context =
  iframe_context :: "IFrameContext option"
  routing_session_handler :: "handler option"
  routing_session_id :: "pystr option"
  connection_handler :: handler

record command =
  cmd_method :: pystr
  sessionId :: "pystr option"

definition resolve_routing :: "routing_context \<Rightarrow> handler \<times> pystr option" where
  "resolve_routing self =
     (case (case iframe_context self of
              None \<Rightarrow> None
            | Some ic \<Rightarrow> (case session_handler ic of None \<Rightarrow> None | Some h \<Rightarrow> Some (h, session_id ic))) of
        Some r \<Rightarrow> r
      | None \<Rightarrow>
          (case routing_session_handler self of
             Some h \<Rightarrow> (h, routing_session_id self)
           | None \<Rightarrow> (connection_handler self, None)))"

text \<open>
  \<open>_execute_command\<close> hands the command to \<open>handler.execute_command(command, timeout=60)\<close>;
  the value is the handler called, the command it is given and the timeout.
\<close>

definition execute_command :: "routing_context \<Rightarrow> command \<Rightarrow> handler \<times> command \<times> nat" where
  "execute_command self cmd =
     (case resolve_routing self of
        (h, sid) \<Rightarrow> (h, (if truthy sid then cmd\<lparr>sessionId := sid\<rparr> else cmd), 60))"

section \<open>Searching across iframes (FindElementsMixin.\_attempt\_find\_across\_iframes)\<close>

text \<open>
  The searches \<open>_find_element\<close> and \<open>_find_elements\<close> (called with \<open>raise_exc=False\<close>) ask the
  browser; they and the attribute \<open>is_iframe\<close> are the document the walk runs over. A
  search context is the tab or an element, and an element found is a context again.
\<close>

record ('c, 'g) document =
  find_element :: "'c \<Rightarrow> 'g \<Rightarrow> 'c option"
  find_elements :: "'c \<Rightarrow> 'g \<Rightarrow> 'c list"
  is_iframe :: "'c \<Rightarrow> bool"

datatype 'c found = RNone | RElement 'c | RList "'c list"

datatype find_error = ElementNotFound | WaitElementTimeout

fun attempt_find_across_iframes ::
  "('c, 'g) document \<Rightarrow> 'c \<Rightarrow> 'g list \<Rightarrow> bool \<Rightarrow> 'c found" where
  "attempt_find_across_iframes d current_context [] find_all = RNone"
| "attempt_find_across_iframes d current_context [seg] find_all =
     (if find_all then RList (find_elements d current_context seg)
      else (case find_element d current_context seg of None \<Rightarrow> RNone | Some el \<Rightarrow> RElement el))"
| "attempt_find_across_iframes d current_context (seg # segs) find_all =
     (case find_element d current_context seg of
        None \<Rightarrow> RNone
      | Some el \<Rightarrow>
          (if is_iframe d el then attempt_find_across_iframes d el segs find_all else RNone))"

text \<open>
  The retry loop \<open>_find_across_iframes\<close>. Attempt \<open>k\<close> runs on the document \<open>docs k\<close>;
  \<open>clock 0\<close> is the reading of the loop time taken at the start and \<open>clock (Suc k)\<close> the
  reading taken after attempt \<open>k\<close> failed. The loop need not end, so its value is
  optional.
\<close>

definition not_found_value :: "bool \<Rightarrow> bool \<Rightarrow> find_error \<Rightarrow> find_error + 'c found" where
  "not_found_value raise_exc find_all err =
     (if raise_exc then Inl err else Inr (if find_all then RList [] else RNone))"

partial_function (option) find_loop ::
  "(nat \<Rightarrow> ('c, 'g) document) \<Rightarrow> (nat \<Rightarrow> rat) \<Rightarrow> 'c \<Rightarrow> 'g list \<Rightarrow> int \<Rightarrow> bool \<Rightarrow> bool \<Rightarrow> nat
     \<Rightarrow> (find_error + 'c found) option" where
  "find_loop docs clock self segments timeout find_all raise_exc k =
     (let result = attempt_find_across_iframes (docs k) self segments find_all
      in if result \<noteq> RNone \<and> result \<noteq> RList [] then Some (Inr result)
         else if timeout = 0 then Some (not_found_value raise_exc find_all ElementNotFound)
         else if of_int timeout < clock (Suc k) - clock 0
           then Some (not_found_value raise_exc find_all WaitElementTimeout)
         else find_loop docs clock self segments timeout find_all raise_exc (Suc k))"

definition find_across_iframes ::
  "(nat \<Rightarrow> ('c, 'g) document) \<Rightarrow> (nat \<Rightarrow> rat) \<Rightarrow> 'c \<Rightarrow> 'g list \<Rightarrow> int \<Rightarrow> bool \<Rightarrow> bool
     \<Rightarrow> (find_error + 'c found) option" where
  "find_across_iframes docs clock self segments timeout find_all raise_exc =
     find_loop docs clock self segments timeout find_all raise_exc 0"

section \<open>Example data\<close>

text \<open>
  A small environment and the events of the test suite, for evaluating the model on
  concrete inputs.
\<close>

definition example_env :: pyenv where
  "example_env =
     \<lparr>b64decode_len = (\<lambda>b. None),
      fromtimestamp_iso = (\<lambda>t. Inr [nat \<lfloor>t\<rfloor>]),
      now_iso = str ''now'',
      parse_query = (\<lambda>u. Inr []),
      get_response_body = (\<lambda>r. None),
      str_of_number = (\<lambda>x. []),
      pydoll_version = Some (str ''0''),
      lower = (\<lambda>x. x),
      write_json = (\<lambda>p. None)\<rparr>"

definition example_request :: RequestWillBeSentEvent where
  "example_request =
     \<lparr>ws_requestId = str ''req-1'',
      ws_request = \<lparr>rd_url = Some (str ''https://example.com''), rd_method = Some (str ''GET''),
                     rd_headers = Some [(str ''User-Agent'', str ''TestBrowser'')],
                     rd_postData = None\<rparr>,
      ws_type = Some (str ''Document''),
      ws_redirectResponse = None,
      ws_wallTime = 1700000000,
      ws_timestamp = 12345\<rparr>"

definition example_timing :: "rat pydict" where
  "example_timing =
     [(str ''dnsStart'', 1 / 2), (str ''dnsEnd'', 5), (str ''connectStart'', 5),
      (str ''connectEnd'', 50), (str ''sslStart'', 10), (str ''sslEnd'', 45),
      (str ''sendStart'', 50), (str ''sendEnd'', 51), (str ''receiveHeadersStart'', 100)]"

definition timed_pending :: pending_entry where
  "timed_pending =
     (new_pending example_request)
       \<lparr>status := Some 200, status_text := Some (str ''OK''), timing := Some example_timing,
        response_timestamp := Some 12346, finished_timestamp := Some (24693 / 2)\<rparr>"

definition unavailable_timing :: "rat pydict" where
  "unavailable_timing =
     [(str ''dnsStart'', - 1), (str ''dnsEnd'', - 1), (str ''connectStart'', - 1),
      (str ''connectEnd'', - 1), (str ''sslStart'', - 1), (str ''sslEnd'', - 1),
      (str ''sendStart'', - 1), (str ''sendEnd'', - 1), (str ''receiveHeadersStart'', - 1)]"

definition late_pending :: pending_entry where
  "late_pending =
     (new_pending example_request)
       \<lparr>status := Some 200, status_text := Some (str ''OK''), timing := Some unavailable_timing,
        response_timestamp := Some 12347, finished_timestamp := Some 12346\<rparr>"

definition emoji_text :: pystr where
  "emoji_text = str ''{\"emoji\": \"'' @ [0x2764] @ str ''\"}''"

definition post_request :: RequestWillBeSentEvent where
  "post_request =
     \<lparr>ws_requestId = str ''req-2'',
      ws_request = \<lparr>rd_url = Some (str ''https://example.com/api''), rd_method = Some (str ''POST''),
                     rd_headers = Some [(str ''Content-Type'', str ''application/json'')],
                     rd_postData = Some emoji_text\<rparr>,
      ws_type = Some (str ''XHR''),
      ws_redirectResponse = None,
      ws_wallTime = 1700000000,
      ws_timestamp = 12345\<rparr>"

definition unknown_request_extra :: RequestWillBeSentExtraInfoEvent where
  "unknown_request_extra =
     \<lparr>wx_requestId = str ''unknown-req'', wx_headers = Some [(str ''Cookie'', str ''session=abc123'')]\<rparr>"

definition unknown_response_extra :: ResponseReceivedExtraInfoEvent where
  "unknown_response_extra =
     \<lparr>rx_requestId = str ''unknown-req'',
      rx_headers = Some [(str ''Content-Type'', str ''text/html'')],
      rx_statusCode = Some 200\<rparr>"

definition ok_response :: cdp_response where
  "ok_response =
     \<lparr>cr_status = Some 200, cr_statusText = Some (str ''OK''),
      cr_headers = Some [(str ''Content-Type'', str ''text/html'')],
      cr_mimeType = Some (str ''text/html''), cr_protocol = Some (str ''h2''),
      cr_timing = None, cr_remoteIPAddress = Some (str ''93.184.216.34''),
      cr_connectionId = Some 42, cr_encodedDataLength = Some 1234,
      cr_other_keys = [str ''url'', str ''charset'', str ''connectionReused'', str ''securityState'']\<rparr>"

definition unknown_response :: ResponseReceivedEvent where
  "unknown_response =
     \<lparr>rr_requestId = str ''unknown-req'', rr_response = ok_response, rr_timestamp = 12346\<rparr>"

definition unknown_finished :: LoadingFinishedEvent where
  "unknown_finished =
     \<lparr>lf_requestId = str ''unknown-req'', lf_encodedDataLength = 1234, lf_timestamp = 12347\<rparr>"

definition unknown_failed :: LoadingFailedEvent where
  "unknown_failed =
     \<lparr>lx_requestId = str ''unknown-req'', lx_errorText = Some (str ''net::ERR_FAILED''),
      lx_canceled = Some False\<rparr>"

definition one_pending :: HarRecorder where
  "one_pending = snd (on_request_will_be_sent example_env example_request (HarRecorder_init None))"

definition oopif_frame :: IFrameContext where
  "oopif_frame = \<lparr>frame_id = str ''F1'', session_handler = Some 3, session_id = Some (str ''S1'')\<rparr>"

definition same_process_frame :: IFrameContext where
  "same_process_frame = \<lparr>frame_id = str ''F2'', session_handler = None, session_id = None\<rparr>"

definition element_in_oopif :: routing_context where
  "element_in_oopif =
     \<lparr>iframe_context = Some oopif_frame, routing_session_handler = None,
      routing_session_id = None, connection_handler = 7\<rparr>"

definition boundary_in_same_process_frame :: routing_context where
  "boundary_in_same_process_frame =
     \<lparr>iframe_context = Some same_process_frame, routing_session_handler = Some 9,
      routing_session_id = Some (str ''S9''), connection_handler = 7\<rparr>"

definition top_level_element :: routing_context where
  "top_level_element =
     \<lparr>iframe_context = None, routing_session_handler = None,
      routing_session_id = None, connection_handler = 7\<rparr>"

definition evaluate_command :: command where
  "evaluate_command = \<lparr>cmd_method = str ''Runtime.evaluate'', sessionId = None\<rparr>"


definition mixed_send_timing :: "rat pydict" where
  "mixed_send_timing =
     [(str ''dnsStart'', - 1), (str ''dnsEnd'', - 1), (str ''connectStart'', - 1),
      (str ''connectEnd'', - 1), (str ''sslStart'', - 1), (str ''sslEnd'', - 1),
      (str ''sendStart'', - 1), (str ''sendEnd'', 5), (str ''receiveHeadersStart'', 5)]"

definition short_receive_pending :: pending_entry where
  "short_receive_pending =
     (new_pending example_request)
       \<lparr>status := Some 200, status_text := Some (str ''OK''),
        response_timestamp := Some 12346, finished_timestamp := Some (4938400001 / 400000)\<rparr>"

(*DEFS-END*)

section \<open>Properties of the floating-point model\<close>

lemma rhe_of_int [simp]: "round_half_even (of_int m) = m"
  by (simp add: round_half_even_def)

lemma rhe_cases: "round_half_even y = \<lfloor>y\<rfloor> \<or> (round_half_even y = \<lfloor>y\<rfloor> + 1 \<and> of_int \<lfloor>y\<rfloor> < y)"
  unfolding round_half_even_def Let_def by auto

lemma rhe_lower:
  assumes "of_int a \<le> y"
  shows "a \<le> round_half_even y"
proof -
  have "a \<le> \<lfloor>y\<rfloor>" using assms by (simp add: le_floor_iff)
  with rhe_cases [of y] show ?thesis by auto
qed

lemma rhe_upper:
  assumes "y \<le> of_int b"
  shows "round_half_even y \<le> b"
proof -
  have f: "\<lfloor>y\<rfloor> \<le> b" using assms by (simp add: floor_le_iff)
  show ?thesis
  proof (cases "round_half_even y = \<lfloor>y\<rfloor>")
    case True
    with f show ?thesis by simp
  next
    case False
    with rhe_cases [of y] have r: "round_half_even y = \<lfloor>y\<rfloor> + 1" and lt: "of_int \<lfloor>y\<rfloor> < y"
      by auto
    from lt assms have "of_int \<lfloor>y\<rfloor> < (of_int b :: rat)" by linarith
    then have "\<lfloor>y\<rfloor> < b" by simp
    with r show ?thesis by simp
  qed
qed

lemma rhe_nonneg: "0 \<le> y \<Longrightarrow> 0 \<le> round_half_even y"
  using rhe_lower [of 0 y] by simp

lemma ilog2_bounds:
  assumes "0 < x"
  shows "2 powi ilog2 x \<le> x \<and> x < 2 powi (ilog2 x + 1)"
proof (cases "1 \<le> x")
  case True
  define n where "n = \<lfloor>x\<rfloor>"
  have n: "0 < n" using True by (simp add: n_def)
  have e: "ilog2 x = bitlen n - 1" using True by (simp add: ilog2_def n_def)
  have b: "1 \<le> bitlen n" using n by (simp add: bitlen_alt_def)
  from bitlen_bounds [OF n] have lo: "2 ^ nat (bitlen n - 1) \<le> n" and hi: "n < 2 ^ nat (bitlen n)"
    by auto
  have "(2::rat) powi (bitlen n - 1) = of_int (2 ^ nat (bitlen n - 1))"
    using b by (simp add: power_int_def)
  also have "\<dots> \<le> of_int n" using lo by (simp only: of_int_le_iff)
  also have "\<dots> \<le> x" by (simp add: n_def)
  finally have 1: "2 powi (bitlen n - 1) \<le> x" .
  have "n + 1 \<le> 2 ^ nat (bitlen n)" using hi by simp
  then have "(of_int (n + 1) :: rat) \<le> of_int (2 ^ nat (bitlen n))" by (simp only: of_int_le_iff)
  moreover have "x < of_int (n + 1)" unfolding n_def using floor_correct [of x] by simp
  moreover have "(2::rat) powi (bitlen n) = of_int (2 ^ nat (bitlen n))"
    using b by (simp add: power_int_def)
  ultimately have 2: "x < 2 powi (bitlen n - 1 + 1)" by simp
  from 1 2 e show ?thesis by simp
next
  case False
  define y where "y = 1 / x"
  define c where "c = \<lceil>y\<rceil>"
  have y1: "1 < y" using False assms by (simp add: y_def)
  have c2: "2 \<le> c" using y1 unfolding c_def by linarith 
  have e: "ilog2 x = - bitlen (c - 1)" using False by (simp add: ilog2_def c_def y_def)
  have c1: "0 < c - 1" using c2 by simp
  have b: "1 \<le> bitlen (c - 1)" using c1 by (simp add: bitlen_alt_def)
  from bitlen_bounds [OF c1] have lo: "2 ^ nat (bitlen (c - 1) - 1) \<le> c - 1"
    and hi: "c - 1 < 2 ^ nat (bitlen (c - 1))" by auto
  let ?b = "bitlen (c - 1)"
  have p: "(2::rat) powi ?b = of_int (2 ^ nat ?b)" "(2::rat) powi (?b - 1) = of_int (2 ^ nat (?b - 1))"
    using b by (simp_all add: power_int_def)
  have "c \<le> 2 ^ nat ?b" using hi by simp
  then have "(of_int c :: rat) \<le> of_int (2 ^ nat ?b)" by (simp only: of_int_le_iff)
  then have cu: "(of_int c :: rat) \<le> 2 powi ?b" unfolding p(1) .
  have "y \<le> of_int c" by (simp add: c_def)
  from this cu have yu: "y \<le> 2 powi ?b" by (rule order_trans)
  have "(of_int (2 ^ nat (?b - 1)) :: rat) \<le> of_int (c - 1)" using lo by (simp only: of_int_le_iff)
  then have cl: "2 powi (?b - 1) \<le> (of_int (c - 1) :: rat)" unfolding p(2) .
  have "of_int (c - 1) < y" unfolding c_def by linarith
  with cl have yl: "2 powi (?b - 1) < y" by (rule le_less_trans)
  have pos: "(0::rat) < 2 powi ?b" "(0::rat) < 2 powi (?b - 1)" by simp_all
  have x: "x = 1 / y" by (simp add: y_def)
  have y0: "0 < y" using y1 by simp
  have "1 / 2 powi ?b \<le> 1 / y"
    using yu y0 by (intro divide_left_mono) (simp_all add: pos)
  moreover have "1 / 2 powi ?b = (2::rat) powi (- ?b)"
    by (simp add: power_int_minus divide_inverse)
  ultimately have 1: "2 powi (- ?b) \<le> x" unfolding x by simp
  have "1 / y < 1 / 2 powi (?b - 1)"
    using yl y0 by (intro divide_strict_left_mono) (simp_all add: pos)
  moreover have "1 / 2 powi (?b - 1) = (2::rat) powi (- (?b - 1))"
    by (simp only: power_int_minus divide_inverse mult_1)
  moreover have "- (?b - 1) = - ?b + 1" by simp
  ultimately have 2: "x < 2 powi (- ?b + 1)" unfolding x by simp
  from 1 2 e show ?thesis by simp
qed

lemma ilog2_unique:
  assumes "0 < x" "2 powi k \<le> x" "x < 2 powi (k + 1)"
  shows "ilog2 x = k"
proof (rule ccontr)
  assume ne: "ilog2 x \<noteq> k"
  from ilog2_bounds [OF assms(1)]
  have lo: "2 powi ilog2 x \<le> x" and hi: "x < 2 powi (ilog2 x + 1)" by auto
  show False
  proof (cases "ilog2 x < k")
    case True
    then have "(2::rat) powi (ilog2 x + 1) \<le> 2 powi k"
      by (intro power_int_increasing) auto
    with hi assms(2) show False by linarith
  next
    case False
    with ne have "k + 1 \<le> ilog2 x" by simp
    then have "(2::rat) powi (k + 1) \<le> 2 powi ilog2 x"
      by (intro power_int_increasing) auto
    with lo assms(3) show False by linarith
  qed
qed

lemma fl_zero [simp]: "fl 0 = 0"
  by (simp add: fl_def)

lemma fl_nonneg: "0 \<le> x \<Longrightarrow> 0 \<le> fl x"
  unfolding fl_def Let_def
  by (auto intro!: mult_nonneg_nonneg rhe_nonneg divide_nonneg_nonneg simp: sgn_if)

lemma fl_minus: "fl (- x) = - fl x"
  by (simp add: fl_def Let_def sgn_if)

lemma fl_scaled_int:
  assumes "2 ^ 52 \<le> m" "m \<le> 2 ^ 53"
  shows "fl (of_int m * 2 powi q) = of_int m * 2 powi q"
proof -
  let ?y = "of_int m * (2::rat) powi q"
  have mpos: "(0::rat) < of_int m" using assms(1) by simp
  have ypos: "0 < ?y" using mpos by simp
  have ab1: "\<bar>?y\<bar> = ?y" using ypos by (rule abs_of_pos)
  have ab2: "sgn ?y = 1" using ypos by (rule sgn_pos)
  have ab3: "?y \<noteq> 0" using ypos by (metis less_irrefl)
  note ab = ab1 ab2 ab3
  have m52: "(2::rat) ^ 52 \<le> of_int m"
    using assms(1) of_int_le_iff [of "2 ^ 52" m, where ?'a = rat] by simp
  show ?thesis
  proof (cases "m = 2 ^ 53")
    case True
    have y: "?y = 2 powi (q + 53)" unfolding True by (simp add: power_int_add)
    have "ilog2 ?y = q + 53"
      unfolding y by (rule ilog2_unique) (simp_all add: power_int_add)
    then have e: "ilog2 ?y - 52 = q + 1" by simp
    have d: "?y / 2 powi (q + 1) = of_int (2 ^ 52)"
      unfolding True by (simp add: power_int_add)
    show ?thesis
      unfolding fl_def Let_def ab e d rhe_of_int using ab(3)
      by (simp add: True power_int_add)
  next
    case False
    with assms(2) have "m < 2 ^ 53" by simp
    then have m53: "of_int m < (2::rat) ^ 53"
      using of_int_less_iff [of m "2 ^ 53", where ?'a = rat] by simp
    have "ilog2 ?y = q + 52"
    proof (rule ilog2_unique [OF ypos])
      show "2 powi (q + 52) \<le> ?y" using m52 by (simp add: power_int_add)
      show "?y < 2 powi (q + 52 + 1)" using m53 by (simp add: power_int_add)
    qed
    then have e: "ilog2 ?y - 52 = q" by simp
    have d: "?y / 2 powi q = of_int m" by simp
    show ?thesis
      unfolding fl_def Let_def ab e d rhe_of_int using ab(3) by simp
  qed
qed

lemma fl_pos_form:
  assumes "0 < a"
  shows "\<exists>m q. 2 ^ 52 \<le> m \<and> m \<le> 2 ^ 53 \<and> fl a = of_int m * 2 powi q"
proof -
  define q where "q = ilog2 a - 52"
  define m where "m = round_half_even (a / 2 powi q)"
  from ilog2_bounds [OF assms]
  have lo: "2 powi (q + 52) \<le> a" and hi: "a < 2 powi (q + 53)"
    by (simp_all add: q_def add.commute)
  have p: "(0::rat) < 2 powi q" by simp
  have "(2::rat) ^ 52 \<le> a / 2 powi q"
    using lo p by (simp add: power_int_add field_simps)
  then have "of_int (2 ^ 52) \<le> a / 2 powi q" by simp
  from rhe_lower [OF this] have 1: "2 ^ 52 \<le> m" by (simp add: m_def)
  have "a / 2 powi q \<le> (2::rat) ^ 53"
    using hi p by (simp add: power_int_add field_simps)
  then have "a / 2 powi q \<le> of_int (2 ^ 53)" by simp
  from rhe_upper [OF this] have 2: "m \<le> 2 ^ 53" by (simp add: m_def)
  have "fl a = of_int m * 2 powi q"
    using assms by (simp add: fl_def Let_def q_def m_def)
  with 1 2 show ?thesis by blast
qed

lemma fl_idem [simp]: "fl (fl x) = fl x"
proof -
  have pos: "fl (fl a) = fl a" if "0 < a" for a
  proof -
    from fl_pos_form [OF that] obtain m q
      where "2 ^ 52 \<le> m" "m \<le> 2 ^ 53" "fl a = of_int m * 2 powi q" by blast
    then show ?thesis using fl_scaled_int [of m q] by simp
  qed
  consider "x = 0" | "0 < x" | "x < 0" by linarith
  then show ?thesis
  proof cases
    case 1 then show ?thesis by simp
  next
    case 2 then show ?thesis by (rule pos)
  next
    case 3
    then have "0 < - x" by simp
    from pos [OF this] show ?thesis by (simp add: fl_minus)
  qed
qed

lemma py_round_nonneg: "0 \<le> x \<Longrightarrow> 0 \<le> py_round x n"
  unfolding py_round_def decimal_round_def
  by (intro fl_nonneg divide_nonneg_nonneg) (simp_all add: rhe_nonneg)

lemma py_round_zero [simp]: "py_round 0 n = 0"
  using rhe_of_int [of 0] by (simp add: py_round_def decimal_round_def)

lemma py_round_double [simp]: "fl (py_round x n) = py_round x n"
  by (simp add: py_round_def)

lemma fadd_double [simp]: "fl (fadd x y) = fadd x y"
  by (simp add: fadd_def)




section \<open>Properties of the entry builder\<close>

lemma fl_one [simp]: "fl 1 = 1"
  by code_simp

lemma fl_minus_one [simp]: "fl (- 1) = - 1"
  by (simp add: fl_minus)

lemma build_entry_Inr:
  assumes "build_entry env p = Inr e"
  shows "\<exists>rq rs st.
     build_har_request env (url p) p (headers_or (request_headers_extra p) (Some (request_headers p))) (post_data p) = Inr rq \<and>
     build_har_response env p (headers_or (response_headers_extra p) (response_headers p)) = Inr rs \<and>
     wall_time_to_iso env (wall_time p) = Inr st \<and>
     e = \<lparr>startedDateTime = st,
          time = py_round (total_time_of (build_har_timings (timing p) (receive_ms_of p))) 2,
          request = rq, response = rs,
          timings = build_har_timings (timing p) (receive_ms_of p),
          serverIPAddress = nonempty_opt (remote_ip p),
          connection = nonempty_opt (connection_id p),
          resourceType = nonempty_opt (Some (resource_type p))\<rparr>"
  using assms unfolding build_entry_def Let_def
  by (auto split: sum.splits)

lemma build_entry_timings:
  "build_entry env p = Inr e \<Longrightarrow> timings e = build_har_timings (timing p) (receive_ms_of p)"
  by (drule build_entry_Inr) auto


lemma phase_unavailable: "phase s e = - 1 \<longleftrightarrow> \<not> (0 \<le> s \<and> 0 \<le> e)"
  using py_round_nonneg [of "max (fsub e s) 0" 3] unfolding phase_def by auto

lemma phase_double [simp]: "fl (phase s e) = phase s e"
  by (simp add: phase_def)

lemma timings_absent:
  "\<not> truthy tm \<Longrightarrow>
     build_har_timings tm r =
       \<lparr>blocked = - 1, dns = - 1, connect = - 1, ssl = - 1, send = 0, wait = 0,
        receive = (case r of None \<Rightarrow> 0 | Some x \<Rightarrow> py_round x 3)\<rparr>"
  by (auto simp: build_har_timings_def truthy_def Let_def split: option.splits)

lemma timings_present:
  "t \<noteq> [] \<Longrightarrow>
     build_har_timings (Some t) r =
       \<lparr>blocked = py_round (max (if 0 \<le> fl (get_or t (str ''dnsStart'') (- 1))
                                   then fl (get_or t (str ''dnsStart'') (- 1))
                                   else if 0 \<le> fl (get_or t (str ''connectStart'') (- 1))
                                     then fl (get_or t (str ''connectStart'') (- 1))
                                   else fl (get_or t (str ''sendStart'') 0)) 0) 3,
        dns = phase (fl (get_or t (str ''dnsStart'') (- 1))) (fl (get_or t (str ''dnsEnd'') (- 1))),
        connect = phase (fl (get_or t (str ''connectStart'') (- 1)))
                    (fl (get_or t (str ''connectEnd'') (- 1))),
        ssl = phase (fl (get_or t (str ''sslStart'') (- 1))) (fl (get_or t (str ''sslEnd'') (- 1))),
        send = py_round (max (fsub (fl (get_or t (str ''sendEnd'') 0))
                                (fl (get_or t (str ''sendStart'') 0))) 0) 3,
        wait = py_round (max (fsub (fl (get_or t (str ''receiveHeadersStart'') 0))
                                (fl (get_or t (str ''sendEnd'') 0))) 0) 3,
        receive = (case r of None \<Rightarrow> 0 | Some x \<Rightarrow> py_round x 3)\<rparr>"
  by (simp add: build_har_timings_def Let_def)





lemma build_har_request_no_post:
  assumes "parse_query env u = Inr qs" "\<not> truthy pd"
  shows "build_har_request env u p h pd =
     Inr \<lparr>rq_method = http_method p, rq_url = u, rq_headers = headers_dict_to_list h,
          rq_queryString = qs, rq_headersSize = - 1, rq_bodySize = 0, rq_postData = None\<rparr>"
  using assms by (simp add: build_har_request_def)

lemma build_entry_intro:
  assumes "build_har_request env (url p) p (headers_or (request_headers_extra p) (Some (request_headers p))) (post_data p) = Inr rq"
    and "build_har_response env p (headers_or (response_headers_extra p) (response_headers p)) = Inr rs"
    and "wall_time_to_iso env (wall_time p) = Inr st"
  shows "build_entry env p =
     Inr \<lparr>startedDateTime = st,
          time = py_round (total_time_of (build_har_timings (timing p) (receive_ms_of p))) 2,
          request = rq, response = rs,
          timings = build_har_timings (timing p) (receive_ms_of p),
          serverIPAddress = nonempty_opt (remote_ip p),
          connection = nonempty_opt (connection_id p),
          resourceType = nonempty_opt (Some (resource_type p))\<rparr>"
  using assms by (simp add: build_entry_def Let_def)

lemma parse_response_cookies_none:
  "map_of h (str ''Set-Cookie'') = None \<Longrightarrow> map_of h (str ''set-cookie'') = None \<Longrightarrow>
     parse_response_cookies env h = Inr []"
  by (simp add: parse_response_cookies_def get_or_def)

lemma build_har_response_no_body:
  assumes "response_body p = None" "parse_response_cookies env h = Inr cs"
  shows "\<exists>rs. build_har_response env p h = Inr rs"
  using assms by (simp add: build_har_response_def content_size_of_def Let_def)

lemma build_entry_plain:
  assumes "parse_query env (url p) = Inr qs" "post_data p = None" "response_body p = None"
    and "response_headers_extra p = None" "response_headers p = None"
    and "wall_time_to_iso env (wall_time p) = Inr st"
  shows "\<exists>e. build_entry env p = Inr e"
proof -
  have "\<not> truthy (post_data p)" using assms(2) by (simp add: truthy_def)
  from build_har_request_no_post [OF assms(1) this]
  obtain rq where rq: "build_har_request env (url p) p (headers_or (request_headers_extra p) (Some (request_headers p))) (post_data p) = Inr rq"
    by blast
  have h: "headers_or (response_headers_extra p) (response_headers p) = []"
    using assms(4,5) by (simp add: headers_or_def truthy_def)
  have "parse_response_cookies env [] = Inr []"
    by (rule parse_response_cookies_none) simp_all
  from build_har_response_no_body [OF assms(3) this]
  obtain rs where rs: "build_har_response env p (headers_or (response_headers_extra p) (response_headers p)) = Inr rs"
    unfolding h by blast
  from build_entry_intro [OF rq rs assms(6)] show ?thesis by blast
qed

lemma timed_pending_builds:
  "\<exists>e. build_entry example_env (timed_pending\<lparr>timing := Some t\<rparr>) = Inr e"
  by (rule build_entry_plain [where qs = "[]" and st = "[1700000000]"])
    (simp_all add: timed_pending_def new_pending_def example_request_def example_env_def
       wall_time_to_iso_def)

lemma example_receive_value: "fmul (fsub (24693 / 2) 12346) 1000 = 500"
  and example_ts_values: "fl 12346 = 12346" "fl (24693 / 2) = 24693 / 2"
  by code_simp+







section \<open>Claims\<close>



lemma fresh_pending_builds: "\<exists>e. build_entry example_env (new_pending example_request) = Inr e"
  by (rule build_entry_plain [where qs = "[]" and st = "[1700000000]"])
    (simp_all add: new_pending_def example_request_def example_env_def wall_time_to_iso_def)

lemma build_entry_request:
  "build_entry env p = Inr e \<Longrightarrow>
     build_har_request env (url p) p
       (headers_or (request_headers_extra p) (Some (request_headers p))) (post_data p) = Inr (request e)"
  by (drule build_entry_Inr) auto

lemma build_har_request_with_post:
  assumes "parse_query env u = Inr qs" "t \<noteq> []" "utf8_len t = Inr n"
  shows "build_har_request env u p h (Some t) =
     Inr \<lparr>rq_method = http_method p, rq_url = u, rq_headers = headers_dict_to_list h,
          rq_queryString = qs, rq_headersSize = - 1, rq_bodySize = int n,
          rq_postData = Some \<lparr>pd_mimeType = get_or h (str ''Content-Type'') (get_or h (str ''content-type'') []),
                               pd_text = t\<rparr>\<rparr>"
  using assms by (simp add: build_har_request_def truthy_def)

lemma build_har_request_body:
  assumes "build_har_request env u p h pd = Inr rq"
  shows "(\<forall>t. pd = Some t \<and> t \<noteq> [] \<longrightarrow>
            (\<exists>n. utf8_len t = Inr n \<and> rq_bodySize rq = int n) \<and>
            rq_postData rq =
              Some \<lparr>pd_mimeType = get_or h (str ''Content-Type'') (get_or h (str ''content-type'') []),
                    pd_text = t\<rparr>)
       \<and> (pd = None \<or> pd = Some [] \<longrightarrow> rq_bodySize rq = 0 \<and> rq_postData rq = None)"
  using assms
  by (auto simp: build_har_request_def truthy_def split: sum.splits if_splits)

text \<open>
  C10. For every finalized HAR entry, the request bodySize is the length of the UTF-8
  encoding of the postData text when that text is non-empty and 0 otherwise; the optional
  postData field is present exactly when the text is non-empty, and then carries the text
  with the mimeType read from the \<open>Content-Type\<close> header of the request, else from
  \<open>content-type\<close>, else empty.
\<close>

theorem request_body_size_and_post_data:
  assumes "build_entry env p = Inr e"
  shows "(\<forall>t. post_data p = Some t \<and> t \<noteq> [] \<longrightarrow>
            (\<exists>n. utf8_len t = Inr n \<and> rq_bodySize (request e) = int n) \<and>
            rq_postData (request e) =
              Some \<lparr>pd_mimeType =
                      get_or (headers_or (request_headers_extra p) (Some (request_headers p)))
                        (str ''Content-Type'')
                        (get_or (headers_or (request_headers_extra p) (Some (request_headers p)))
                           (str ''content-type'') []),
                    pd_text = t\<rparr>)
       \<and> (post_data p = None \<or> post_data p = Some [] \<longrightarrow>
            rq_bodySize (request e) = 0 \<and> rq_postData (request e) = None)"
  by (rule build_har_request_body [OF build_entry_request [OF assms]])

lemma emoji_len: "utf8_len emoji_text = Inr 16"
  by (simp add: emoji_text_def str_def utf8_width_def)

lemma post_pending_builds: "\<exists>e. build_entry example_env (new_pending post_request) = Inr e"
proof -
  let ?p = "new_pending post_request"
  have pd: "post_data ?p = Some emoji_text"
    by (simp add: new_pending_def post_request_def)
  have ne: "emoji_text \<noteq> []"
    by (simp add: emoji_text_def)
  have q: "parse_query example_env (url ?p) = Inr []"
    by (simp add: example_env_def)
  obtain rq where rq: "build_har_request example_env (url ?p) ?p
       (headers_or (request_headers_extra ?p) (Some (request_headers ?p))) (post_data ?p) = Inr rq"
    unfolding pd using build_har_request_with_post [OF q ne emoji_len] by blast
  have h: "headers_or (response_headers_extra ?p) (response_headers ?p) = []"
    by (simp add: new_pending_def headers_or_def truthy_def)
  have c: "parse_response_cookies example_env [] = Inr []"
    by (rule parse_response_cookies_none) simp_all
  have "response_body ?p = None" by (simp add: new_pending_def)
  from build_har_response_no_body [OF this c]
  obtain rs where rs: "build_har_response example_env ?p
       (headers_or (response_headers_extra ?p) (response_headers ?p)) = Inr rs"
    unfolding h by blast
  have w: "wall_time_to_iso example_env (wall_time ?p) = Inr [1700000000]"
    by (simp add: new_pending_def post_request_def example_env_def wall_time_to_iso_def)
  from build_entry_intro [OF rq rs w] show ?thesis by blast
qed

theorem request_body_size_and_post_data_witness:
  "\<exists>e e0. build_entry example_env (new_pending post_request) = Inr e \<and>
     length emoji_text = 14 \<and>
     rq_bodySize (request e) = 16 \<and>
     rq_postData (request e) =
       Some \<lparr>pd_mimeType = str ''application/json'',
             pd_text = emoji_text\<rparr> \<and>
     build_entry example_env (new_pending example_request) = Inr e0 \<and>
     rq_bodySize (request e0) = 0 \<and> rq_postData (request e0) = None"
proof -
  obtain e where e: "build_entry example_env (new_pending post_request) = Inr e"
    using post_pending_builds by blast
  obtain e0 where e0: "build_entry example_env (new_pending example_request) = Inr e0"
    using fresh_pending_builds by blast
  have pd: "post_data (new_pending post_request) = Some emoji_text
      \<and> emoji_text \<noteq> []"
    by (simp add: new_pending_def post_request_def emoji_text_def)
  have h: "get_or (headers_or (request_headers_extra (new_pending post_request))
                    (Some (request_headers (new_pending post_request))))
             (str ''Content-Type'') d = str ''application/json''" for d
    by (simp add: new_pending_def post_request_def headers_or_def truthy_def get_or_def)
  have pd0: "post_data (new_pending example_request) = None"
    by (simp add: new_pending_def example_request_def)
  from request_body_size_and_post_data [OF e] pd
  have 1: "rq_bodySize (request e) = 16"
    "rq_postData (request e) =
       Some \<lparr>pd_mimeType = str ''application/json'',
             pd_text = emoji_text\<rparr>"
    by (auto simp: emoji_len h)
  from request_body_size_and_post_data [OF e0] pd0
  have 2: "rq_bodySize (request e0) = 0 \<and> rq_postData (request e0) = None"
    by simp
  have "length emoji_text = 14"
    by (simp add: emoji_text_def str_def)
  with 1 2 e e0 show ?thesis by blast
qed

lemma one_pending_eq:
  "one_pending = (HarRecorder_init None)\<lparr>pending := [(str ''req-1'', new_pending example_request)]\<rparr>"
  by (simp add: one_pending_def on_request_will_be_sent_def filtered_out_def truthy_def
      HarRecorder_init_def is_redirect_def example_request_def)

text \<open>
  C7. For a requestWillBeSentExtraInfo, responseReceivedExtraInfo, responseReceived,
  loadingFinished or loadingFailed event whose request id has no live pending entry, the
  handler returns normally (no exception) and leaves the whole recorder as it was: no
  entry is appended, no body-fetch task is scheduled and the pending table is unchanged.
\<close>

theorem events_without_pending_are_dropped:
  assumes "map_of (pending s) rid = None"
  shows "(wx_requestId e1 = rid \<longrightarrow> on_request_extra_info e1 s = (None, s)) \<and>
         (rx_requestId e2 = rid \<longrightarrow> on_response_extra_info e2 s = (None, s)) \<and>
         (rr_requestId e3 = rid \<longrightarrow> on_response_received env e3 s = (None, s)) \<and>
         (lf_requestId e4 = rid \<longrightarrow> on_loading_finished e4 s = (None, s)) \<and>
         (lx_requestId e5 = rid \<longrightarrow> on_loading_failed env e5 s = (None, s))"
  using assms
  by (simp add: on_request_extra_info_def on_response_extra_info_def on_response_received_def
      on_loading_finished_def on_loading_failed_def)

theorem events_without_pending_are_dropped_witness:
  "map_of (pending one_pending) (str ''req-1'') = Some (new_pending example_request) \<and>
   map_of (pending one_pending) (str ''unknown-req'') = None \<and>
   on_request_extra_info unknown_request_extra one_pending = (None, one_pending) \<and>
   on_response_extra_info unknown_response_extra one_pending = (None, one_pending) \<and>
   on_response_received example_env unknown_response one_pending = (None, one_pending) \<and>
   on_loading_finished unknown_finished one_pending = (None, one_pending) \<and>
   on_loading_failed example_env unknown_failed one_pending = (None, one_pending)"
proof -
  have p: "map_of (pending one_pending) (str ''req-1'') = Some (new_pending example_request)"
    and u: "map_of (pending one_pending) (str ''unknown-req'') = None"
    by (simp_all add: one_pending_eq str_def)
  have ids: "wx_requestId unknown_request_extra = str ''unknown-req''"
    "rx_requestId unknown_response_extra = str ''unknown-req''"
    "rr_requestId unknown_response = str ''unknown-req''"
    "lf_requestId unknown_finished = str ''unknown-req''"
    "lx_requestId unknown_failed = str ''unknown-req''"
    by (simp_all add: unknown_request_extra_def unknown_response_extra_def unknown_response_def
        unknown_finished_def unknown_failed_def)
  from events_without_pending_are_dropped [OF u, where ?e1.0 = unknown_request_extra
      and ?e2.0 = unknown_response_extra and ?e3.0 = unknown_response
      and ?e4.0 = unknown_finished and ?e5.0 = unknown_failed and env = example_env] ids p u
  show ?thesis by simp
qed

text \<open>
  C5 (amended). For every command issued from an element, frame or shadow-root context,
  the handler and the session id are resolved from the current fields of the context at
  send time, in this order: the pair of the inherited IFrameContext if the context carries
  one whose \<open>session_handler\<close> is set; else the routing fields of the context itself if its
  routing handler is set; else the owning connection with no session id. The command goes
  to the resolved handler, and whenever the resolved session id is non-empty the command
  is stamped with it before it is sent; otherwise the command is sent as it is. As stated
  the claim fails: a context that carries an IFrameContext without a session handler is
  routed by its routing fields (or by default), not by the pair of that IFrameContext.
\<close>

theorem routing_resolution_order:
  "(\<forall>ic h. iframe_context c = Some ic \<and> session_handler ic = Some h \<longrightarrow>
       resolve_routing c = (h, session_id ic))
   \<and> (iframe_context c = None \<or> (\<exists>ic. iframe_context c = Some ic \<and> session_handler ic = None) \<longrightarrow>
        (\<forall>h. routing_session_handler c = Some h \<longrightarrow> resolve_routing c = (h, routing_session_id c)) \<and>
        (routing_session_handler c = None \<longrightarrow> resolve_routing c = (connection_handler c, None)))
   \<and> fst (execute_command c cmd) = fst (resolve_routing c)
   \<and> (\<forall>sid. snd (resolve_routing c) = Some sid \<and> sid \<noteq> [] \<longrightarrow>
        fst (snd (execute_command c cmd)) = cmd\<lparr>sessionId := Some sid\<rparr>)
   \<and> (snd (resolve_routing c) = None \<or> snd (resolve_routing c) = Some [] \<longrightarrow>
        fst (snd (execute_command c cmd)) = cmd)"
  by (auto simp: resolve_routing_def execute_command_def truthy_def split: option.splits prod.splits)

theorem routing_resolution_counterexample:
  "iframe_context boundary_in_same_process_frame = Some same_process_frame \<and>
   (Some (fst (resolve_routing boundary_in_same_process_frame)),
    snd (resolve_routing boundary_in_same_process_frame))
     \<noteq> (session_handler same_process_frame, session_id same_process_frame) \<and>
   resolve_routing boundary_in_same_process_frame = (9, Some (str ''S9''))"
  by (simp add: resolve_routing_def boundary_in_same_process_frame_def same_process_frame_def)

theorem routing_resolution_order_witness:
  "resolve_routing element_in_oopif = (3, Some (str ''S1'')) \<and>
   execute_command element_in_oopif evaluate_command =
     (3, evaluate_command\<lparr>sessionId := Some (str ''S1'')\<rparr>, 60) \<and>
   resolve_routing boundary_in_same_process_frame = (9, Some (str ''S9'')) \<and>
   resolve_routing top_level_element = (7, None) \<and>
   execute_command top_level_element evaluate_command = (7, evaluate_command, 60)"
proof -
  have a: "iframe_context element_in_oopif = Some oopif_frame \<and> session_handler oopif_frame = Some 3"
    "session_id oopif_frame = Some (str ''S1'')" "str ''S1'' \<noteq> []"
    by (simp_all add: element_in_oopif_def oopif_frame_def str_def)
  have b: "\<exists>ic. iframe_context boundary_in_same_process_frame = Some ic \<and> session_handler ic = None"
    "routing_session_handler boundary_in_same_process_frame = Some 9"
    "routing_session_id boundary_in_same_process_frame = Some (str ''S9'')"
    by (simp_all add: boundary_in_same_process_frame_def same_process_frame_def)
  have c: "iframe_context top_level_element = None"
    "routing_session_handler top_level_element = None" "connection_handler top_level_element = 7"
    by (simp_all add: top_level_element_def)
  have t: "snd (snd (execute_command x y)) = 60" for x y
    by (simp add: execute_command_def split: prod.splits)
  have 1: "resolve_routing element_in_oopif = (3, Some (str ''S1''))"
    using routing_resolution_order [of element_in_oopif evaluate_command] a by simp
  have 2: "execute_command element_in_oopif evaluate_command =
     (3, evaluate_command\<lparr>sessionId := Some (str ''S1'')\<rparr>, 60)"
    using routing_resolution_order [of element_in_oopif evaluate_command] a 1
      t [of element_in_oopif evaluate_command]
    by (cases "execute_command element_in_oopif evaluate_command") simp
  have 3: "resolve_routing boundary_in_same_process_frame = (9, Some (str ''S9''))"
    using routing_resolution_order [of boundary_in_same_process_frame evaluate_command] b by simp
  have 4: "resolve_routing top_level_element = (7, None)"
    using routing_resolution_order [of top_level_element evaluate_command] c by simp
  have 5: "execute_command top_level_element evaluate_command = (7, evaluate_command, 60)"
    using routing_resolution_order [of top_level_element evaluate_command] 4
      t [of top_level_element evaluate_command]
    by (cases "execute_command top_level_element evaluate_command") simp
  from 1 2 3 4 5 show ?thesis by simp
qed

lemma receive_ms_of_eq:
  "receive_ms_of p =
     (case (response_timestamp p, finished_timestamp p) of
        (Some r, Some f) \<Rightarrow>
          if fl r \<noteq> 0 \<and> fl f \<noteq> 0 \<and> fl r < fl f then Some (fmul (fsub (fl f) (fl r)) 1000) else None
      | _ \<Rightarrow> None)"
  by (auto simp: receive_ms_of_def Let_def split: option.splits)

lemma receive_value:
  "receive (build_har_timings tm r) = (case r of None \<Rightarrow> 0 | Some x \<Rightarrow> py_round x 3)"
  by (cases "truthy tm")
    (auto simp: timings_absent timings_present truthy_def split: option.splits)

lemma py_round_not_minus_one: "0 \<le> x \<Longrightarrow> py_round x n \<noteq> - 1"
  using py_round_nonneg [of x n] by linarith

text \<open>
  C9 (amended). In every built HarTimings: without a timing dict (absent or empty), blocked,
  dns, connect and ssl are -1 and send and wait are 0. With a timing dict, whose missing
  keys are read as -1 (dns, connect and ssl keys) or 0 (\<open>sendStart\<close>, \<open>sendEnd\<close>,
  \<open>receiveHeadersStart\<close>): each of dns, connect and ssl is \<open>round(max(end - start, 0), 3)\<close> when
  both its start and its end are at least 0, and -1 otherwise; blocked is
  \<open>round(max(first, 0), 3)\<close>, where \<open>first\<close> is \<open>dnsStart\<close> if that is at least 0, else
  \<open>connectStart\<close> if that is at least 0, else \<open>sendStart\<close>, so blocked is never -1; send is
  \<open>round(max(sendEnd - sendStart, 0), 3)\<close> and wait is
  \<open>round(max(receiveHeadersStart - sendEnd, 0), 3)\<close>, computed without any availability test,
  so they are never -1. receive is \<open>round((finished - response) * 1000, 3)\<close> when both
  timestamps are present and non-zero and the finish is later than the response, and 0
  otherwise. All arithmetic is on doubles. As stated the claim fails: with every start
  and end at -1 blocked is 0; with \<open>sendStart = -1\<close> and \<open>sendEnd = 5\<close> send is 6; with the
  finish before the response receive is 0; and a gap of 0.0025 ms gives a receive of 0.003.
\<close>

theorem har_timings_phases:
  assumes "build_entry env p = Inr e"
  shows "(\<not> truthy (timing p) \<longrightarrow>
            blocked (timings e) = - 1 \<and> dns (timings e) = - 1 \<and> connect (timings e) = - 1 \<and>
            ssl (timings e) = - 1 \<and> send (timings e) = 0 \<and> wait (timings e) = 0)
       \<and> (\<forall>t dns_s dns_e con_s con_e ssl_s ssl_e snd_s snd_e rh_s.
            timing p = Some t \<and> t \<noteq> [] \<and>
            dns_s = fl (get_or t (str ''dnsStart'') (- 1)) \<and>
            dns_e = fl (get_or t (str ''dnsEnd'') (- 1)) \<and>
            con_s = fl (get_or t (str ''connectStart'') (- 1)) \<and>
            con_e = fl (get_or t (str ''connectEnd'') (- 1)) \<and>
            ssl_s = fl (get_or t (str ''sslStart'') (- 1)) \<and>
            ssl_e = fl (get_or t (str ''sslEnd'') (- 1)) \<and>
            snd_s = fl (get_or t (str ''sendStart'') 0) \<and>
            snd_e = fl (get_or t (str ''sendEnd'') 0) \<and>
            rh_s = fl (get_or t (str ''receiveHeadersStart'') 0) \<longrightarrow>
            dns (timings e) =
              (if 0 \<le> dns_s \<and> 0 \<le> dns_e then py_round (max (fsub dns_e dns_s) 0) 3 else - 1) \<and>
            connect (timings e) =
              (if 0 \<le> con_s \<and> 0 \<le> con_e then py_round (max (fsub con_e con_s) 0) 3 else - 1) \<and>
            ssl (timings e) =
              (if 0 \<le> ssl_s \<and> 0 \<le> ssl_e then py_round (max (fsub ssl_e ssl_s) 0) 3 else - 1) \<and>
            (dns (timings e) = - 1 \<longleftrightarrow> \<not> (0 \<le> dns_s \<and> 0 \<le> dns_e)) \<and>
            (connect (timings e) = - 1 \<longleftrightarrow> \<not> (0 \<le> con_s \<and> 0 \<le> con_e)) \<and>
            (ssl (timings e) = - 1 \<longleftrightarrow> \<not> (0 \<le> ssl_s \<and> 0 \<le> ssl_e)) \<and>
            blocked (timings e) =
              py_round (max (if 0 \<le> dns_s then dns_s else if 0 \<le> con_s then con_s else snd_s) 0) 3 \<and>
            blocked (timings e) \<noteq> - 1 \<and>
            send (timings e) = py_round (max (fsub snd_e snd_s) 0) 3 \<and>
            send (timings e) \<noteq> - 1 \<and>
            wait (timings e) = py_round (max (fsub rh_s snd_e) 0) 3 \<and>
            wait (timings e) \<noteq> - 1)
       \<and> receive (timings e) =
            (case (response_timestamp p, finished_timestamp p) of
               (Some r, Some f) \<Rightarrow>
                 if fl r \<noteq> 0 \<and> fl f \<noteq> 0 \<and> fl r < fl f
                 then py_round (fmul (fsub (fl f) (fl r)) 1000) 3 else 0
             | _ \<Rightarrow> 0)"
proof -
  note tm = build_entry_timings [OF assms]
  have A: "\<not> truthy (timing p) \<longrightarrow>
            blocked (timings e) = - 1 \<and> dns (timings e) = - 1 \<and> connect (timings e) = - 1 \<and>
            ssl (timings e) = - 1 \<and> send (timings e) = 0 \<and> wait (timings e) = 0"
  proof
    assume "\<not> truthy (timing p)"
    from timings_absent [OF this] tm
    show "blocked (timings e) = - 1 \<and> dns (timings e) = - 1 \<and> connect (timings e) = - 1 \<and>
            ssl (timings e) = - 1 \<and> send (timings e) = 0 \<and> wait (timings e) = 0"
      by simp
  qed
  have B: "\<forall>t dns_s dns_e con_s con_e ssl_s ssl_e snd_s snd_e rh_s.
            timing p = Some t \<and> t \<noteq> [] \<and>
            dns_s = fl (get_or t (str ''dnsStart'') (- 1)) \<and>
            dns_e = fl (get_or t (str ''dnsEnd'') (- 1)) \<and>
            con_s = fl (get_or t (str ''connectStart'') (- 1)) \<and>
            con_e = fl (get_or t (str ''connectEnd'') (- 1)) \<and>
            ssl_s = fl (get_or t (str ''sslStart'') (- 1)) \<and>
            ssl_e = fl (get_or t (str ''sslEnd'') (- 1)) \<and>
            snd_s = fl (get_or t (str ''sendStart'') 0) \<and>
            snd_e = fl (get_or t (str ''sendEnd'') 0) \<and>
            rh_s = fl (get_or t (str ''receiveHeadersStart'') 0) \<longrightarrow>
            dns (timings e) =
              (if 0 \<le> dns_s \<and> 0 \<le> dns_e then py_round (max (fsub dns_e dns_s) 0) 3 else - 1) \<and>
            connect (timings e) =
              (if 0 \<le> con_s \<and> 0 \<le> con_e then py_round (max (fsub con_e con_s) 0) 3 else - 1) \<and>
            ssl (timings e) =
              (if 0 \<le> ssl_s \<and> 0 \<le> ssl_e then py_round (max (fsub ssl_e ssl_s) 0) 3 else - 1) \<and>
            (dns (timings e) = - 1 \<longleftrightarrow> \<not> (0 \<le> dns_s \<and> 0 \<le> dns_e)) \<and>
            (connect (timings e) = - 1 \<longleftrightarrow> \<not> (0 \<le> con_s \<and> 0 \<le> con_e)) \<and>
            (ssl (timings e) = - 1 \<longleftrightarrow> \<not> (0 \<le> ssl_s \<and> 0 \<le> ssl_e)) \<and>
            blocked (timings e) =
              py_round (max (if 0 \<le> dns_s then dns_s else if 0 \<le> con_s then con_s else snd_s) 0) 3 \<and>
            blocked (timings e) \<noteq> - 1 \<and>
            send (timings e) = py_round (max (fsub snd_e snd_s) 0) 3 \<and>
            send (timings e) \<noteq> - 1 \<and>
            wait (timings e) = py_round (max (fsub rh_s snd_e) 0) 3 \<and>
            wait (timings e) \<noteq> - 1"
  proof (intro allI impI, elim conjE)
    fix t dns_s dns_e con_s con_e ssl_s ssl_e snd_s snd_e rh_s :: "_"
    assume t: "timing p = Some t" "t \<noteq> []"
      and v: "dns_s = fl (get_or t (str ''dnsStart'') (- 1))"
        "dns_e = fl (get_or t (str ''dnsEnd'') (- 1))"
        "con_s = fl (get_or t (str ''connectStart'') (- 1))"
        "con_e = fl (get_or t (str ''connectEnd'') (- 1))"
        "ssl_s = fl (get_or t (str ''sslStart'') (- 1))"
        "ssl_e = fl (get_or t (str ''sslEnd'') (- 1))"
        "snd_s = fl (get_or t (str ''sendStart'') 0)"
        "snd_e = fl (get_or t (str ''sendEnd'') 0)"
        "rh_s = fl (get_or t (str ''receiveHeadersStart'') 0)"
    have te: "timings e =
       \<lparr>blocked = py_round (max (if 0 \<le> dns_s then dns_s else if 0 \<le> con_s then con_s else snd_s) 0) 3,
        dns = phase dns_s dns_e, connect = phase con_s con_e, ssl = phase ssl_s ssl_e,
        send = py_round (max (fsub snd_e snd_s) 0) 3,
        wait = py_round (max (fsub rh_s snd_e) 0) 3,
        receive = (case receive_ms_of p of None \<Rightarrow> 0 | Some x \<Rightarrow> py_round x 3)\<rparr>"
      unfolding tm t(1) timings_present [OF t(2)] v ..
    have n: "py_round (max x 0) 3 \<noteq> - 1" for x
      by (rule py_round_not_minus_one) simp
    show "dns (timings e) =
              (if 0 \<le> dns_s \<and> 0 \<le> dns_e then py_round (max (fsub dns_e dns_s) 0) 3 else - 1) \<and>
            connect (timings e) =
              (if 0 \<le> con_s \<and> 0 \<le> con_e then py_round (max (fsub con_e con_s) 0) 3 else - 1) \<and>
            ssl (timings e) =
              (if 0 \<le> ssl_s \<and> 0 \<le> ssl_e then py_round (max (fsub ssl_e ssl_s) 0) 3 else - 1) \<and>
            (dns (timings e) = - 1 \<longleftrightarrow> \<not> (0 \<le> dns_s \<and> 0 \<le> dns_e)) \<and>
            (connect (timings e) = - 1 \<longleftrightarrow> \<not> (0 \<le> con_s \<and> 0 \<le> con_e)) \<and>
            (ssl (timings e) = - 1 \<longleftrightarrow> \<not> (0 \<le> ssl_s \<and> 0 \<le> ssl_e)) \<and>
            blocked (timings e) =
              py_round (max (if 0 \<le> dns_s then dns_s else if 0 \<le> con_s then con_s else snd_s) 0) 3 \<and>
            blocked (timings e) \<noteq> - 1 \<and>
            send (timings e) = py_round (max (fsub snd_e snd_s) 0) 3 \<and>
            send (timings e) \<noteq> - 1 \<and>
            wait (timings e) = py_round (max (fsub rh_s snd_e) 0) 3 \<and>
            wait (timings e) \<noteq> - 1"
      unfolding te HarTimings.simps
      by (simp only: n phase_unavailable simp_thms) (simp only: phase_def simp_thms)
  qed
  have "receive (timings e) = (case receive_ms_of p of None \<Rightarrow> 0 | Some x \<Rightarrow> py_round x 3)"
    unfolding tm by (rule receive_value)
  then have C: "receive (timings e) =
            (case (response_timestamp p, finished_timestamp p) of
               (Some r, Some f) \<Rightarrow>
                 if fl r \<noteq> 0 \<and> fl f \<noteq> 0 \<and> fl r < fl f
                 then py_round (fmul (fsub (fl f) (fl r)) 1000) 3 else 0
             | _ \<Rightarrow> 0)"
    by (simp add: receive_ms_of_eq split: option.splits)
  show ?thesis by (rule conjI [OF A conjI [OF B C]])
qed

lemma unavailable_timings_value:
  "build_har_timings (Some unavailable_timing) None =
     \<lparr>blocked = 0, dns = - 1, connect = - 1, ssl = - 1, send = 0, wait = 0, receive = 0\<rparr>"
  by code_simp

lemma mixed_send_timings_value:
  "build_har_timings (Some mixed_send_timing) None =
     \<lparr>blocked = 0, dns = - 1, connect = - 1, ssl = - 1, send = 6, wait = 0, receive = 0\<rparr>"
  by code_simp

lemma late_values: "fl 12347 = 12347" "fl 12346 = 12346"
  by code_simp+

lemma short_receive_values:
  "fl (4938400001 / 400000) \<noteq> 0" "12346 < fl (4938400001 / 400000)"
  "py_round (fmul (fsub (fl (4938400001 / 400000)) 12346) 1000) 3 = fl (3 / 1000)"
  "fl (3 / 1000) \<noteq> (4938400001 / 400000 - 12346) * 1000"
  by code_simp+

theorem har_timings_counterexample:
  "map_of unavailable_timing (str ''dnsStart'') = Some (- 1) \<and>
   map_of unavailable_timing (str ''connectStart'') = Some (- 1) \<and>
   map_of unavailable_timing (str ''sendStart'') = Some (- 1) \<and>
   blocked (build_har_timings (Some unavailable_timing) None) = 0 \<and>
   map_of mixed_send_timing (str ''sendStart'') = Some (- 1) \<and>
   map_of mixed_send_timing (str ''sendEnd'') = Some 5 \<and>
   send (build_har_timings (Some mixed_send_timing) None) = 6 \<and>
   response_timestamp late_pending = Some 12347 \<and>
   finished_timestamp late_pending = Some 12346 \<and>
   receive (build_har_timings (timing late_pending) (receive_ms_of late_pending)) = 0 \<and>
   response_timestamp short_receive_pending = Some 12346 \<and>
   finished_timestamp short_receive_pending = Some (4938400001 / 400000) \<and>
   receive (build_har_timings (timing short_receive_pending) (receive_ms_of short_receive_pending))
     = fl (3 / 1000) \<and>
   fl (3 / 1000) \<noteq> (4938400001 / 400000 - 12346) * 1000"
proof -
  have m: "map_of unavailable_timing (str ''dnsStart'') = Some (- 1)"
    "map_of unavailable_timing (str ''connectStart'') = Some (- 1)"
    "map_of unavailable_timing (str ''sendStart'') = Some (- 1)"
    "map_of mixed_send_timing (str ''sendStart'') = Some (- 1)"
    "map_of mixed_send_timing (str ''sendEnd'') = Some 5"
    by (simp_all add: unavailable_timing_def mixed_send_timing_def str_def)
  have l: "response_timestamp late_pending = Some 12347"
    "finished_timestamp late_pending = Some 12346"
    "receive_ms_of late_pending = None"
    by (simp_all add: receive_ms_of_eq late_pending_def late_values)
  have s: "response_timestamp short_receive_pending = Some 12346"
    "finished_timestamp short_receive_pending = Some (4938400001 / 400000)"
    by (simp_all add: short_receive_pending_def)
  have sr: "receive_ms_of short_receive_pending =
      Some (fmul (fsub (fl (4938400001 / 400000)) 12346) 1000)"
    by (simp add: receive_ms_of_eq s late_values short_receive_values)
  show ?thesis
    unfolding receive_value l sr unavailable_timings_value mixed_send_timings_value
    using m s short_receive_values by simp
qed

lemma timed_values:
  "(if 0 \<le> fl (1 / 2) \<and> 0 \<le> fl 5 then py_round (max (fsub (fl 5) (fl (1 / 2))) 0) 3 else - 1) = 9 / 2"
  "py_round (max (if 0 \<le> fl (1 / 2) then fl (1 / 2) else if 0 \<le> fl 5 then fl 5 else fl 50) 0) 3 = 1 / 2"
  "py_round (max (fsub (fl 51) (fl 50)) 0) 3 = 1"
  "py_round (max (fsub (fl 100) (fl 51)) 0) 3 = 49"
  by code_simp+

theorem har_timings_phases_witness:
  "\<exists>e e0. build_entry example_env timed_pending = Inr e \<and>
     dns (timings e) = 9 / 2 \<and> blocked (timings e) = 1 / 2 \<and> send (timings e) = 1 \<and>
     wait (timings e) = 49 \<and> receive (timings e) = 500 \<and>
     build_entry example_env (new_pending example_request) = Inr e0 \<and>
     blocked (timings e0) = - 1 \<and> dns (timings e0) = - 1 \<and> connect (timings e0) = - 1 \<and>
     ssl (timings e0) = - 1 \<and> send (timings e0) = 0 \<and> wait (timings e0) = 0 \<and>
     receive (timings e0) = 0"
proof -
  have tp: "timed_pending\<lparr>timing := Some example_timing\<rparr> = timed_pending"
    by (simp add: timed_pending_def)
  obtain e where e: "build_entry example_env timed_pending = Inr e"
    using timed_pending_builds [of example_timing] tp by auto
  obtain e0 where e0: "build_entry example_env (new_pending example_request) = Inr e0"
    using fresh_pending_builds by blast
  have t: "timing timed_pending = Some example_timing \<and> example_timing \<noteq> []"
    by (simp add: timed_pending_def example_timing_def)
  have ts: "response_timestamp timed_pending = Some 12346"
    "finished_timestamp timed_pending = Some (24693 / 2)"
    by (simp_all add: timed_pending_def)
  have g: "get_or example_timing (str ''dnsStart'') (- 1) = 1 / 2"
    "get_or example_timing (str ''dnsEnd'') (- 1) = 5"
    "get_or example_timing (str ''connectStart'') (- 1) = 5"
    "get_or example_timing (str ''sendStart'') 0 = 50"
    "get_or example_timing (str ''sendEnd'') 0 = 51"
    "get_or example_timing (str ''receiveHeadersStart'') 0 = 100"
    by (simp_all add: get_or_def example_timing_def str_def)
  note B = har_timings_phases [OF e, THEN conjunct2, THEN conjunct1, rule_format,
      of example_timing, OF conjI [OF conjunct1 [OF t] conjI [OF conjunct2 [OF t]]]]
  have 1: "dns (timings e) = 9 / 2" "blocked (timings e) = 1 / 2" "send (timings e) = 1"
    "wait (timings e) = 49"
    using B [of "fl (get_or example_timing (str ''dnsStart'') (- 1))"
        "fl (get_or example_timing (str ''dnsEnd'') (- 1))"
        "fl (get_or example_timing (str ''connectStart'') (- 1))"
        "fl (get_or example_timing (str ''connectEnd'') (- 1))"
        "fl (get_or example_timing (str ''sslStart'') (- 1))"
        "fl (get_or example_timing (str ''sslEnd'') (- 1))"
        "fl (get_or example_timing (str ''sendStart'') 0)"
        "fl (get_or example_timing (str ''sendEnd'') 0)"
        "fl (get_or example_timing (str ''receiveHeadersStart'') 0)"]
    unfolding g by (simp_all only: simp_thms timed_values)
  from har_timings_phases [OF e, THEN conjunct2, THEN conjunct2]
  have 2: "receive (timings e) = 500"
    unfolding ts by (simp add: example_ts_values example_receive_value)
      (code_simp)
  have n: "\<not> truthy (timing (new_pending example_request))"
    "response_timestamp (new_pending example_request) = None"
    by (simp_all add: new_pending_def truthy_def)
  from har_timings_phases [OF e0] n
  have 3: "blocked (timings e0) = - 1 \<and> dns (timings e0) = - 1 \<and> connect (timings e0) = - 1 \<and>
     ssl (timings e0) = - 1 \<and> send (timings e0) = 0 \<and> wait (timings e0) = 0 \<and>
     receive (timings e0) = 0"
    by simp
  from 1 2 3 e e0 show ?thesis by blast
qed

end
